theory Spec2Isabelle
  imports Main "HOL-Library.Word" "HOL-Library.AList"
begin

section \<open>The banner cache of StepMania (BannerCache.cpp)\<close>

text \<open>
  A shallow embedding of \<^verbatim>\<open>src/stepmania/src/BannerCache.cpp\<close>. The file keeps two
  pieces of process-wide state, \<^verbatim>\<open>g_BannerPathToImage\<close> (banner path to a heap-allocated
  low-resolution surface) and \<^verbatim>\<open>g_iDemandRefcount\<close>, together with the index
  \<^verbatim>\<open>BannerData\<close> of the \<^verbatim>\<open>BannerCache\<close> object. Everything else it touches is a
  collaborator whose code lives in other files of the program: the preferences, the file
  system, the surface codec and filters, the display and the texture manager. The
  collaborators appear here as fields of one record, \<open>World\<close>, that every operation takes
  and returns.
\<close>

subsection \<open>Integer helpers\<close>

text \<open>
  C's \<^verbatim>\<open>/\<close> on \<^verbatim>\<open>int\<close> truncates towards zero, HOL's \<open>div\<close> rounds down.
  The dimensions of a surface are C \<^verbatim>\<open>int\<close>s; they are modelled as unbounded \<open>int\<close>:
  for a non-negative 32-bit dimension no step of \<^verbatim>\<open>closest\<close>, \<^verbatim>\<open>min\<close>,
  \<^verbatim>\<open>max\<close> or the halving leaves the 32-bit range.
\<close>

definition c_div :: "int \<Rightarrow> int \<Rightarrow> int" where
  "c_div a b = sgn a * sgn b * (\<bar>a\<bar> div \<bar>b\<bar>)"

text \<open>
  Modelled from the spec: \<^verbatim>\<open>power_of_two\<close> is declared in RageUtil.h, which is not
  among the sources. The spec calls its result the "next", "enclosing" or "rounded-up"
  power of two of the argument: the least power of two that is not below it. It is
  computed here by doubling, starting from 1; the test \<open>0 < iValue\<close> is there for the
  termination proof and never fails on the way up from 1. An argument below 1 gives 1.
\<close>

function power_of_two_from :: "int \<Rightarrow> int \<Rightarrow> int" where
  "power_of_two_from iValue iInput =
     (if 0 < iValue \<and> iValue < iInput then power_of_two_from (2 * iValue) iInput else iValue)"
  by pat_completeness auto
termination
  by (relation "measure (\<lambda>(iValue, iInput). nat (iInput - iValue))") auto

declare power_of_two_from.simps [simp del]

definition power_of_two :: "int \<Rightarrow> int" where
  "power_of_two iInput = power_of_two_from 1 iInput"

text \<open>\<^verbatim>\<open>static inline int closest( int num, int n1, int n2 )\<close>, lines 325 to 330.\<close>

definition closest :: "int \<Rightarrow> int \<Rightarrow> int \<Rightarrow> int" where
  "closest num n1 n2 = (if \<bar>num - n1\<bar> > \<bar>num - n2\<bar> then n2 else n1)"

text \<open>
  Lines 431 to 441 of \<^verbatim>\<open>CacheBannerInternal\<close> run the same three statements on the
  width and on the height: halve, round to the nearest power of two, apply the floor.
  \<open>snap_half\<close> is the first two statements (lines 431 and 435), \<open>resize_target\<close> all three.
\<close>

definition snap_half :: "int \<Rightarrow> int" where
  "snap_half iSourceWidth =
     (let width = c_div iSourceWidth 2
      in closest width (power_of_two width) (c_div (power_of_two width) 2))"

definition resize_target :: "int \<Rightarrow> int" where
  "resize_target iSourceWidth =
     (let width = snap_half iSourceWidth;
          width = max width (min 32 (power_of_two iSourceWidth))
      in width)"

definition is_power_of_two :: "int \<Rightarrow> bool" where
  "is_power_of_two n = (\<exists>k::nat. n = 2 ^ k)"

subsection \<open>Data\<close>

text \<open>
  The caching mode of the preferences. The enumeration is declared in PrefsManager.h,
  which is not among the sources; BannerCache.cpp names the two low-resolution modes and
  treats every other value alike, as "off".
\<close>

datatype BannerCacheMode = BNCACHE_OFF | BNCACHE_LOW_RES_PRELOAD | BNCACHE_LOW_RES_LOAD_ON_DEMAND

record PrefsManager =
  m_BannerCache :: BannerCacheMode
  m_bFastLoad :: bool
  m_bPalettedBannerCache :: bool

text \<open>
  A surface: the fields BannerCache.cpp reads (\<^verbatim>\<open>w\<close>, \<^verbatim>\<open>h\<close>, the bits and bytes per
  pixel of its format), and its pixels as the history of the filters applied to them.
  What a filter does to the pixels is the business of the filter.
\<close>

datatype Pixels =
    Raw nat
  | Blank
  | ColorKeyed Pixels
  | Converted Pixels
  | Blitted Pixels
  | Zoomed Pixels
  | Palettized Pixels
  | Dithered Pixels

record RageSurface =
  img_w :: int
  img_h :: int
  BitsPerPixel :: int
  BytesPerPixel :: int
  pixels :: Pixels

text \<open>
  One child of \<^verbatim>\<open>BannerData\<close>: the values stored under a banner path. A value that
  was never set is \<open>None\<close>, and \<^verbatim>\<open>GetValue\<close> then returns false and leaves its output
  argument alone.
\<close>

record IniKey =
  ini_Path :: "string option"
  ini_Width :: "int option"
  ini_Height :: "int option"
  ini_FullHash :: "32 word option"
  ini_Rotated :: "bool option"

type_synonym IniFile = "(string \<times> IniKey) list"

datatype TexturePolicy = TEX_DEFAULT | TEX_VOLATILE

text \<open>
  A texture identifier: the file name, the loading hints (which
  \<^verbatim>\<open>Sprite::SongBannerTexture\<close> sets) and the caching policy.
\<close>

record RageTextureID =
  filename :: string
  hints :: nat
  Policy :: TexturePolicy

datatype PixelFormat = PixelFormat_PAL | PixelFormat_RGB5A1 | PixelFormat_RGBA4

text \<open>
  \<^verbatim>\<open>struct BannerTexture\<close>, lines 183 to 262. Its member \<^verbatim>\<open>img\<close> is a reference to
  the pointer stored in \<^verbatim>\<open>g_BannerPathToImage\<close>: here, the key of that entry.
\<close>

record BannerTexture =
  tex_ID :: RageTextureID
  m_uTexHandle :: nat
  img_ref :: string
  m_iSourceWidth :: int
  m_iSourceHeight :: int
  m_iTextureWidth :: int
  m_iTextureHeight :: int
  m_iImageWidth :: int
  m_iImageHeight :: int

record RageDisplay =
  GetMaxTextureSize :: int
  SupportsTextureFormat :: "PixelFormat \<Rightarrow> bool"
  created_textures :: "(PixelFormat \<times> RageSurface) list"

datatype TextureManCall =
    RegisterTexture RageTextureID BannerTexture
  | UnloadTexture BannerTexture

datatype IOCall =
    Call_LoadSurface string
  | Call_LoadFile string
  | Call_SaveSurface string
  | Call_WriteFile

datatype Failure = AssertFailed string

text \<open>
  The world. \<open>files\<close>, \<open>file_hash\<close>, \<open>decodable\<close> and \<open>cache_files\<close> are what
  \<^verbatim>\<open>DoesFileExist\<close>, \<^verbatim>\<open>GetHashForFile\<close>, \<^verbatim>\<open>RageSurfaceUtils::LoadFile\<close> and
  \<^verbatim>\<open>RageSurfaceUtils::LoadSurface\<close> answer for a path; a file may exist and still not
  decode. \<open>io_calls\<close> lists the calls made to the codec and to the index file, oldest
  first. \<open>heap\<close> holds the live surfaces, \<open>next_ptr\<close> is the address the next
  allocation returns. \<open>TEXTUREMAN\<close> is the list of the calls the texture manager received.
\<close>

record World =
  PREFSMAN :: PrefsManager
  DISPLAY :: RageDisplay
  TEXTUREMAN :: "TextureManCall list"
  files :: "string \<Rightarrow> bool"
  file_hash :: "string \<Rightarrow> 32 word"
  decodable :: "string \<Rightarrow> RageSurface option"
  cache_files :: "string \<Rightarrow> RageSurface option"
  index_file :: IniFile
  io_calls :: "IOCall list"
  GetCacheFilePath :: "string \<Rightarrow> string \<Rightarrow> string"
  IsDiagonalBanner :: "int \<Rightarrow> int \<Rightarrow> bool"
  SongBannerTexture :: "RageTextureID \<Rightarrow> RageTextureID"
  heap :: "nat \<Rightarrow> RageSurface option"
  next_ptr :: nat
  g_BannerPathToImage :: "(string \<times> nat) list"
  g_iDemandRefcount :: "32 word"
  BannerData :: IniFile

subsection \<open>Collaborators\<close>

text \<open>\<^verbatim>\<open>new\<close>, \<^verbatim>\<open>delete\<close> and \<^verbatim>\<open>*\<close> on surfaces.\<close>

definition new_surface :: "RageSurface \<Rightarrow> World \<Rightarrow> nat \<times> World" where
  "new_surface s W =
     (next_ptr W, W\<lparr>heap := (heap W)(next_ptr W \<mapsto> s), next_ptr := Suc (next_ptr W)\<rparr>)"

definition delete_surface :: "nat \<Rightarrow> World \<Rightarrow> World" where
  "delete_surface img W = W\<lparr>heap := (heap W)(img := None)\<rparr>"

definition deref :: "World \<Rightarrow> nat \<Rightarrow> RageSurface" where
  "deref W img = the (heap W img)"

definition DoesFileExist :: "World \<Rightarrow> string \<Rightarrow> bool" where
  "DoesFileExist W sPath = files W sPath"

definition GetHashForFile :: "World \<Rightarrow> string \<Rightarrow> 32 word" where
  "GetHashForFile W sPath = file_hash W sPath"

text \<open>
  Modelled from the spec: the codec (RageSurface_Load, RageSurfaceUtils) is not among the
  sources. \<^verbatim>\<open>LoadSurface\<close> and \<^verbatim>\<open>LoadFile\<close> return a new surface, or NULL (\<open>None\<close>)
  when the file is missing or does not decode; \<^verbatim>\<open>SaveSurface\<close> writes the surface to
  the path, and a later \<^verbatim>\<open>LoadSurface\<close> of that path decodes it.
\<close>

definition RageSurfaceUtils_LoadSurface :: "string \<Rightarrow> World \<Rightarrow> nat option \<times> World" where
  "RageSurfaceUtils_LoadSurface sPath W =
     (let W1 = W\<lparr>io_calls := io_calls W @ [Call_LoadSurface sPath]\<rparr>
      in case cache_files W1 sPath of
           None \<Rightarrow> (None, W1)
         | Some s \<Rightarrow> (let (img, W2) = new_surface s W1 in (Some img, W2)))"

definition RageSurfaceUtils_LoadFile :: "string \<Rightarrow> World \<Rightarrow> nat option \<times> World" where
  "RageSurfaceUtils_LoadFile sPath W =
     (let W1 = W\<lparr>io_calls := io_calls W @ [Call_LoadFile sPath]\<rparr>
      in case decodable W1 sPath of
           None \<Rightarrow> (None, W1)
         | Some s \<Rightarrow> (let (img, W2) = new_surface s W1 in (Some img, W2)))"

definition RageSurfaceUtils_SaveSurface :: "nat \<Rightarrow> string \<Rightarrow> World \<Rightarrow> World" where
  "RageSurfaceUtils_SaveSurface img sPath W =
     W\<lparr>io_calls := io_calls W @ [Call_SaveSurface sPath],
       files := (files W)(sPath := True),
       cache_files := (cache_files W)(sPath \<mapsto> deref W img)\<rparr>"

text \<open>
  Modelled from the spec: the filters of RageSurfaceUtils are not among the sources.
  \<^verbatim>\<open>Zoom\<close> resizes the surface behind the pointer to the given dimensions;
  \<^verbatim>\<open>ConvertSurface\<close> and \<^verbatim>\<open>Palettize\<close> change its format; \<^verbatim>\<open>CreateSurface\<close>
  allocates a blank surface; the others touch pixels only.
\<close>

definition update_surface :: "nat \<Rightarrow> (RageSurface \<Rightarrow> RageSurface) \<Rightarrow> World \<Rightarrow> World" where
  "update_surface img f W = W\<lparr>heap := (heap W)(img \<mapsto> f (deref W img))\<rparr>"

definition ApplyHotPinkColorKey :: "nat \<Rightarrow> World \<Rightarrow> World" where
  "ApplyHotPinkColorKey img W = update_surface img (\<lambda>s. s\<lparr>pixels := ColorKeyed (pixels s)\<rparr>) W"

definition ConvertSurface :: "nat \<Rightarrow> int \<Rightarrow> World \<Rightarrow> World" where
  "ConvertSurface img bpp W =
     update_surface img
       (\<lambda>s. s\<lparr>BitsPerPixel := bpp, BytesPerPixel := c_div bpp 8, pixels := Converted (pixels s)\<rparr>) W"

definition CreateSurface :: "int \<Rightarrow> int \<Rightarrow> int \<Rightarrow> World \<Rightarrow> nat \<times> World" where
  "CreateSurface width height bpp W =
     new_surface \<lparr>img_w = width, img_h = height, BitsPerPixel = bpp,
                  BytesPerPixel = c_div bpp 8, pixels = Blank\<rparr> W"

definition BlitTransform :: "nat \<Rightarrow> nat \<Rightarrow> World \<Rightarrow> World" where
  "BlitTransform src dst W = update_surface dst (\<lambda>s. s\<lparr>pixels := Blitted (pixels (deref W src))\<rparr>) W"

definition Zoom :: "nat \<Rightarrow> int \<Rightarrow> int \<Rightarrow> World \<Rightarrow> World" where
  "Zoom img width height W =
     update_surface img (\<lambda>s. s\<lparr>img_w := width, img_h := height, pixels := Zoomed (pixels s)\<rparr>) W"

definition Palettize :: "nat \<Rightarrow> World \<Rightarrow> World" where
  "Palettize img W =
     update_surface img
       (\<lambda>s. s\<lparr>BitsPerPixel := 8, BytesPerPixel := 1, pixels := Palettized (pixels s)\<rparr>) W"

definition OrderedDither :: "nat \<Rightarrow> nat \<Rightarrow> World \<Rightarrow> World" where
  "OrderedDither src dst W = update_surface dst (\<lambda>s. s\<lparr>pixels := Dithered (pixels (deref W src))\<rparr>) W"

text \<open>
  \<^verbatim>\<open>BannerData\<close> is an \<^verbatim>\<open>IniFile\<close>. \<^verbatim>\<open>GetValue\<close> finds the child of that name and
  reads one of its values; \<^verbatim>\<open>SetValue\<close> creates the child when it is missing;
  \<^verbatim>\<open>WriteFile\<close> rewrites the whole index file.
\<close>

definition empty_key :: IniKey where
  "empty_key = \<lparr>ini_Path = None, ini_Width = None, ini_Height = None,
                ini_FullHash = None, ini_Rotated = None\<rparr>"

definition GetValue :: "IniFile \<Rightarrow> string \<Rightarrow> (IniKey \<Rightarrow> 'a option) \<Rightarrow> 'a option" where
  "GetValue ini sKey field = (case map_of ini sKey of None \<Rightarrow> None | Some k \<Rightarrow> field k)"

definition SetValue :: "string \<Rightarrow> (IniKey \<Rightarrow> IniKey) \<Rightarrow> IniFile \<Rightarrow> IniFile" where
  "SetValue sKey upd ini =
     AList.update sKey (upd (case map_of ini sKey of None \<Rightarrow> empty_key | Some k \<Rightarrow> k)) ini"

definition WriteFile :: "World \<Rightarrow> World" where
  "WriteFile W = W\<lparr>io_calls := io_calls W @ [Call_WriteFile], index_file := BannerData W\<rparr>"

text \<open>
  The texture manager finds a texture by its identifier; the policy is not part of the
  identity of a texture.
\<close>

definition same_texture :: "RageTextureID \<Rightarrow> RageTextureID \<Rightarrow> bool" where
  "same_texture a b = (filename a = filename b \<and> hints a = hints b)"

fun registered_as :: "RageTextureID \<Rightarrow> TextureManCall \<Rightarrow> bool" where
  "registered_as ID (RegisterTexture ID' t) = same_texture ID ID'"
| "registered_as ID (UnloadTexture t) = False"

definition IsTextureRegistered :: "World \<Rightarrow> RageTextureID \<Rightarrow> bool" where
  "IsTextureRegistered W ID = list_ex (registered_as ID) (TEXTUREMAN W)"

definition CreateTexture :: "PixelFormat \<Rightarrow> nat \<Rightarrow> World \<Rightarrow> nat \<times> World" where
  "CreateTexture pf img W =
     (Suc (length (created_textures (DISPLAY W))),
      W\<lparr>DISPLAY := (DISPLAY W)\<lparr>created_textures :=
           created_textures (DISPLAY W) @ [(pf, deref W img)]\<rparr>\<rparr>)"

subsection \<open>BannerCache.cpp\<close>

definition GetBannerCachePath :: "World \<Rightarrow> string \<Rightarrow> string" where
  "GetBannerCachePath W sBannerPath = GetCacheFilePath W ''Banners'' sBannerPath"

text \<open>
  \<^verbatim>\<open>BannerCache::Demand\<close>, lines 62 to 87; the loop body is lines 73 to 85.
  \<^verbatim>\<open>g_iDemandRefcount\<close> is a 32-bit \<^verbatim>\<open>int\<close>: the increment of line 64 and the
  decrement of line 92 wrap around, and the comparison of line 65 is signed.
\<close>

fun Demand_loop :: "string list \<Rightarrow> World \<Rightarrow> World" where
  "Demand_loop [] W = W"
| "Demand_loop (sBannerPath # rest) W =
     (if map_of (g_BannerPathToImage W) sBannerPath \<noteq> None then Demand_loop rest W
      else
        let CachePath = GetBannerCachePath W sBannerPath;
            (img, W1) = RageSurfaceUtils_LoadSurface CachePath W
        in case img of
             None \<Rightarrow> Demand_loop rest W1
           | Some img \<Rightarrow>
               Demand_loop rest
                 (W1\<lparr>g_BannerPathToImage :=
                       AList.update sBannerPath img (g_BannerPathToImage W1)\<rparr>))"

definition Demand :: "World \<Rightarrow> World" where
  "Demand W =
     (let W1 = W\<lparr>g_iDemandRefcount := g_iDemandRefcount W + 1\<rparr>
      in if sint (g_iDemandRefcount W1) > 1 then W1
         else if m_BannerCache (PREFSMAN W1) \<noteq> BNCACHE_LOW_RES_LOAD_ON_DEMAND then W1
         else Demand_loop (map fst (BannerData W1)) W1)"

text \<open>\<^verbatim>\<open>BannerCache::UnloadAllBanners\<close>, lines 160 to 166.\<close>

definition UnloadAllBanners :: "World \<Rightarrow> World" where
  "UnloadAllBanners W =
     (fold (\<lambda>it. delete_surface (snd it)) (g_BannerPathToImage W) W)\<lparr>g_BannerPathToImage := []\<rparr>"

text \<open>\<^verbatim>\<open>BannerCache::Undemand\<close>, lines 90 to 100.\<close>

definition Undemand :: "World \<Rightarrow> World" where
  "Undemand W =
     (let W1 = W\<lparr>g_iDemandRefcount := g_iDemandRefcount W - 1\<rparr>
      in if g_iDemandRefcount W1 \<noteq> 0 then W1
         else if m_BannerCache (PREFSMAN W1) \<noteq> BNCACHE_LOW_RES_LOAD_ON_DEMAND then W1
         else UnloadAllBanners W1)"

text \<open>
  \<^verbatim>\<open>BannerCache::CacheBannerInternal\<close>, lines 373 to 509, block by block.

  Lines 383 to 425: a diagonal banner is un-rotated onto a new 256 by 64 surface. The
  assertion of line 408 sits behind \<^verbatim>\<open>BitsPerPixel == 8\<close> right after the conversion to
  32 bits, and cannot fail.
\<close>

definition UnrotateDiagonalBanner :: "nat \<Rightarrow> World \<Rightarrow> nat \<times> bool \<times> World" where
  "UnrotateDiagonalBanner img W =
     (if IsDiagonalBanner W (img_w (deref W img)) (img_h (deref W img)) then
        let Wa = ApplyHotPinkColorKey img W;
            Wb = ConvertSurface img 32 Wa;
            (dst, Wc) = CreateSurface 256 64 (BitsPerPixel (deref Wb img)) Wb;
            Wd = BlitTransform img dst Wc;
            We = delete_surface img Wd
        in (dst, True, We)
      else (img, False, W))"

text \<open>Lines 429 to 445: the target dimensions, the colour key and the resize.\<close>

definition ResizeBanner :: "nat \<Rightarrow> World \<Rightarrow> int \<times> int \<times> World" where
  "ResizeBanner img W =
     (let iSourceWidth = img_w (deref W img);
          iSourceHeight = img_h (deref W img);
          width = resize_target iSourceWidth;
          height = resize_target iSourceHeight;
          Wa = ApplyHotPinkColorKey img W;
          Wb = Zoom img width height Wa
      in (iSourceWidth, iSourceHeight, Wb))"

text \<open>Lines 463 to 480: palettize in place, or dither onto a new 16-bit surface.\<close>

definition EncodeBanner :: "nat \<Rightarrow> World \<Rightarrow> nat \<times> World" where
  "EncodeBanner img W =
     (if m_bPalettedBannerCache (PREFSMAN W) then
        (img, if BytesPerPixel (deref W img) \<noteq> 1 then Palettize img W else W)
      else
        let (dst, Wa) = CreateSurface (img_w (deref W img)) (img_h (deref W img)) 16 W;
            Wb = OrderedDither img dst Wa;
            Wc = delete_surface img Wb
        in (dst, Wc))"

text \<open>Lines 485 to 499: free the image loaded before, keep the new one in preload mode.\<close>

definition ReplaceLoadedBanner :: "string \<Rightarrow> nat \<Rightarrow> World \<Rightarrow> World" where
  "ReplaceLoadedBanner sBannerPath img W =
     (let W1 = (case map_of (g_BannerPathToImage W) sBannerPath of
                  None \<Rightarrow> W
                | Some oldimg \<Rightarrow>
                    (delete_surface oldimg W)\<lparr>g_BannerPathToImage :=
                       AList.delete sBannerPath (g_BannerPathToImage W)\<rparr>)
      in if m_BannerCache (PREFSMAN W1) = BNCACHE_LOW_RES_PRELOAD then
           W1\<lparr>g_BannerPathToImage := AList.update sBannerPath img (g_BannerPathToImage W1)\<rparr>
         else delete_surface img W1)"

text \<open>Lines 501 to 508: the index entry, and the index file.\<close>

definition RememberBanner :: "string \<Rightarrow> string \<Rightarrow> int \<Rightarrow> int \<Rightarrow> bool \<Rightarrow> World \<Rightarrow> World" where
  "RememberBanner sBannerPath CachePath iSourceWidth iSourceHeight WasRotatedBanner W =
     WriteFile
       (W\<lparr>BannerData :=
            SetValue sBannerPath (\<lambda>k. k\<lparr>ini_Rotated := Some WasRotatedBanner\<rparr>)
           (SetValue sBannerPath (\<lambda>k. k\<lparr>ini_FullHash := Some (GetHashForFile W sBannerPath)\<rparr>)
           (SetValue sBannerPath (\<lambda>k. k\<lparr>ini_Height := Some iSourceHeight\<rparr>)
           (SetValue sBannerPath (\<lambda>k. k\<lparr>ini_Width := Some iSourceWidth\<rparr>)
           (SetValue sBannerPath (\<lambda>k. k\<lparr>ini_Path := Some CachePath\<rparr>)
              (BannerData W)))))\<rparr>)"

text \<open>The whole function: lines 375 to 381 give up when the source does not decode.\<close>

definition CacheBannerInternal :: "string \<Rightarrow> World \<Rightarrow> World" where
  "CacheBannerInternal sBannerPath W0 =
     (case RageSurfaceUtils_LoadFile sBannerPath W0 of
        (None, W1) \<Rightarrow> W1
      | (Some img, W1) \<Rightarrow>
          let (img, WasRotatedBanner, W2) = UnrotateDiagonalBanner img W1;
              (iSourceWidth, iSourceHeight, W3) = ResizeBanner img W2;
              (img, W4) = EncodeBanner img W3;
              CachePath = GetBannerCachePath W4 sBannerPath;
              W5 = RageSurfaceUtils_SaveSurface img CachePath W4;
              W6 = ReplaceLoadedBanner sBannerPath img W5
          in RememberBanner sBannerPath CachePath iSourceWidth iSourceHeight WasRotatedBanner W6)"

text \<open>
  \<^verbatim>\<open>BannerCache::LoadBanner\<close>, lines 106 to 146. \<open>LoadBanner_loop\<close> is the
  \<^verbatim>\<open>for\<close> loop of lines 117 to 145, with \<^verbatim>\<open>tries\<close> as its argument.
\<close>

function LoadBanner_loop :: "int \<Rightarrow> string \<Rightarrow> string \<Rightarrow> World \<Rightarrow> World" where
  "LoadBanner_loop tries sBannerPath CachePath W =
     (if \<not> tries < 2 then W
      else if map_of (g_BannerPathToImage W) sBannerPath \<noteq> None then W
      else
        let (img, W1) = RageSurfaceUtils_LoadSurface CachePath W
        in case img of
             None \<Rightarrow>
               if tries = 0 then
                 LoadBanner_loop (tries + 1) sBannerPath CachePath
                   (CacheBannerInternal sBannerPath W1)
               else W1
           | Some img \<Rightarrow>
               LoadBanner_loop (tries + 1) sBannerPath CachePath
                 (W1\<lparr>g_BannerPathToImage :=
                       AList.update sBannerPath img (g_BannerPathToImage W1)\<rparr>))"
  by pat_completeness auto
termination
  by (relation "measure (\<lambda>(tries, sBannerPath, CachePath, W). nat (2 - tries))") auto

declare LoadBanner_loop.simps [simp del]

definition LoadBanner :: "string \<Rightarrow> World \<Rightarrow> World" where
  "LoadBanner sBannerPath W =
     (if sBannerPath = [] then W
      else if m_BannerCache (PREFSMAN W) \<noteq> BNCACHE_LOW_RES_PRELOAD \<and>
              m_BannerCache (PREFSMAN W) \<noteq> BNCACHE_LOW_RES_LOAD_ON_DEMAND then W
      else LoadBanner_loop 0 sBannerPath (GetBannerCachePath W sBannerPath) W)"

text \<open>\<^verbatim>\<open>BannerCache::CacheBanner\<close>, lines 334 to 371.\<close>

definition CacheBanner :: "string \<Rightarrow> World \<Rightarrow> World" where
  "CacheBanner sBannerPath W =
     (if m_BannerCache (PREFSMAN W) \<noteq> BNCACHE_LOW_RES_PRELOAD \<and>
         m_BannerCache (PREFSMAN W) \<noteq> BNCACHE_LOW_RES_LOAD_ON_DEMAND then W
      else if \<not> DoesFileExist W sBannerPath then W
      else
        let CachePath = GetBannerCachePath W sBannerPath
        in if DoesFileExist W CachePath then
             let bCacheUpToDate = m_bFastLoad (PREFSMAN W);
                 bCacheUpToDate =
                   (if \<not> bCacheUpToDate then
                      let FullHash = GetHashForFile W sBannerPath
                      in if GetValue (BannerData W) sBannerPath ini_FullHash = Some FullHash
                         then True else bCacheUpToDate
                    else bCacheUpToDate)
             in if bCacheUpToDate then
                  (if m_BannerCache (PREFSMAN W) = BNCACHE_LOW_RES_PRELOAD
                   then LoadBanner sBannerPath W else W)
                else CacheBannerInternal sBannerPath W
           else CacheBannerInternal sBannerPath W)"

text \<open>
  \<^verbatim>\<open>BannerTexture::Create\<close>, lines 202 to 243, as run by the constructor. A failed
  \<^verbatim>\<open>ASSERT\<close> ends the program: the result is then \<open>Inl\<close>.
\<close>

definition BannerTexture_Create ::
  "RageTextureID \<Rightarrow> string \<Rightarrow> int \<Rightarrow> int \<Rightarrow> World \<Rightarrow> Failure + (BannerTexture \<times> World)" where
  "BannerTexture_Create name img_slot width height W =
     (case map_of (g_BannerPathToImage W) img_slot of
        None \<Rightarrow> Inl (AssertFailed ''img'')
      | Some img \<Rightarrow>
          let iMax = GetMaxTextureSize (DISPLAY W);
              W1 = (if img_w (deref W img) > iMax \<or> img_h (deref W img) > iMax then
                      Zoom img (min (img_w (deref W img)) iMax) (min (img_h (deref W img)) iMax) W
                    else W)
          in if img_w (deref W1 img) \<noteq> power_of_two (img_w (deref W1 img)) then
               Inl (AssertFailed ''img->w == power_of_two(img->w)'')
             else if img_h (deref W1 img) \<noteq> power_of_two (img_h (deref W1 img)) then
               Inl (AssertFailed ''img->h == power_of_two(img->h)'')
             else
               let pf = (if BitsPerPixel (deref W1 img) = 8
                         then PixelFormat_PAL else PixelFormat_RGB5A1);
                   pf = (if \<not> SupportsTextureFormat (DISPLAY W1) pf
                         then PixelFormat_RGBA4 else pf)
               in if \<not> SupportsTextureFormat (DISPLAY W1) pf then
                    Inl (AssertFailed ''DISPLAY->SupportsTextureFormat(pf)'')
                  else
                    let (uTexHandle, W2) = CreateTexture pf img W1
                    in Inr (\<lparr>tex_ID = name, m_uTexHandle = uTexHandle, img_ref = img_slot,
                             m_iSourceWidth = width, m_iSourceHeight = height,
                             m_iTextureWidth = img_w (deref W1 img),
                             m_iTextureHeight = img_h (deref W1 img),
                             m_iImageWidth = img_w (deref W1 img),
                             m_iImageHeight = img_h (deref W1 img)\<rparr>, W2))"

text \<open>
  \<^verbatim>\<open>BannerCache::LoadCachedBanner\<close>, lines 265 to 323. The assertion of line 290
  holds whenever it is reached: the entry was found at line 279, and no null pointer is
  ever stored in \<^verbatim>\<open>g_BannerPathToImage\<close>.
\<close>

definition LoadCachedBanner :: "string \<Rightarrow> World \<Rightarrow> Failure + (RageTextureID \<times> World)" where
  "LoadCachedBanner sBannerPath W =
     (let ID = \<lparr>filename = GetBannerCachePath W sBannerPath, hints = 0, Policy = TEX_DEFAULT\<rparr>
      in if sBannerPath = [] then Inr (ID, W)
         else
           let ID = SongBannerTexture W ID
           in case map_of (g_BannerPathToImage W) sBannerPath of
                None \<Rightarrow> Inr (ID, W)
              | Some img \<Rightarrow>
                  let iSourceWidth = (case GetValue (BannerData W) sBannerPath ini_Width of
                                        None \<Rightarrow> 0 | Some v \<Rightarrow> v);
                      iSourceHeight = (case GetValue (BannerData W) sBannerPath ini_Height of
                                         None \<Rightarrow> 0 | Some v \<Rightarrow> v);
                      WasRotatedBanner = (case GetValue (BannerData W) sBannerPath ini_Rotated of
                                            None \<Rightarrow> False | Some v \<Rightarrow> v)
                  in if iSourceWidth = 0 \<or> iSourceHeight = 0 then Inr (ID, W)
                     else
                       let ID = (if WasRotatedBanner
                                 then ID\<lparr>filename := filename ID @ ''(was rotated)''\<rparr> else ID)
                       in if IsTextureRegistered W ID then Inr (ID, W)
                          else
                            case BannerTexture_Create ID sBannerPath iSourceWidth iSourceHeight W of
                              Inl e \<Rightarrow> Inl e
                            | Inr (pTexture, W1) \<Rightarrow>
                                let ID = ID\<lparr>Policy := TEX_VOLATILE\<rparr>;
                                    W2 = W1\<lparr>TEXTUREMAN :=
                                              TEXTUREMAN W1 @ [RegisterTexture ID pTexture]\<rparr>;
                                    W3 = W2\<lparr>TEXTUREMAN :=
                                              TEXTUREMAN W2 @ [UnloadTexture pTexture]\<rparr>
                                in Inr (ID, W3))"


subsection \<open>Two devices for the proofs\<close>

text \<open>
  \<open>heap_frame b W W'\<close>: from \<open>W\<close> to \<open>W'\<close> nothing changed but the heap at or above the
  address \<open>b\<close>, and the allocation pointer, which did not go down. The blocks of
  \<^verbatim>\<open>CacheBannerInternal\<close> that work on the local image are steps of this kind.
\<close>

definition heap_frame :: "nat \<Rightarrow> World \<Rightarrow> World \<Rightarrow> bool" where
  "heap_frame b W W' \<longleftrightarrow>
     PREFSMAN W' = PREFSMAN W \<and> DISPLAY W' = DISPLAY W \<and> TEXTUREMAN W' = TEXTUREMAN W \<and>
     files W' = files W \<and> file_hash W' = file_hash W \<and> decodable W' = decodable W \<and>
     cache_files W' = cache_files W \<and> index_file W' = index_file W \<and>
     io_calls W' = io_calls W \<and> GetCacheFilePath W' = GetCacheFilePath W \<and>
     IsDiagonalBanner W' = IsDiagonalBanner W \<and> SongBannerTexture W' = SongBannerTexture W \<and>
     g_BannerPathToImage W' = g_BannerPathToImage W \<and>
     g_iDemandRefcount W' = g_iDemandRefcount W \<and> BannerData W' = BannerData W \<and>
     next_ptr W \<le> next_ptr W' \<and> (\<forall>a<b. heap W' a = heap W a)"

text \<open>
  \<open>images_ok W\<close>: every entry of \<^verbatim>\<open>g_BannerPathToImage\<close> points to a live surface
  that was allocated, and no two entries point to the same surface.
\<close>

definition images_ok :: "World \<Rightarrow> bool" where
  "images_ok W \<longleftrightarrow>
     (\<forall>p img. map_of (g_BannerPathToImage W) p = Some img \<longrightarrow>
        img < next_ptr W \<and> heap W img \<noteq> None) \<and>
     (\<forall>p q img. map_of (g_BannerPathToImage W) p = Some img \<and>
        map_of (g_BannerPathToImage W) q = Some img \<longrightarrow> p = q)"

text \<open>
  A small world to run the code in: one banner, \<^verbatim>\<open>a.png\<close>, 40 by 40 pixels, not yet
  cached; load-on-demand mode; nothing in memory.
\<close>

definition a_png :: RageSurface where
  "a_png = \<lparr>img_w = 40, img_h = 40, BitsPerPixel = 32, BytesPerPixel = 4, pixels = Raw 0\<rparr>"

definition small_world :: World where
  "small_world =
     \<lparr>PREFSMAN = \<lparr>m_BannerCache = BNCACHE_LOW_RES_LOAD_ON_DEMAND, m_bFastLoad = False,
                   m_bPalettedBannerCache = False\<rparr>,
      DISPLAY = \<lparr>GetMaxTextureSize = 2048, SupportsTextureFormat = (\<lambda>pf. True),
                  created_textures = []\<rparr>,
      TEXTUREMAN = [],
      files = (\<lambda>sPath. sPath = ''a.png''),
      file_hash = (\<lambda>sPath. 7),
      decodable = (\<lambda>sPath. if sPath = ''a.png'' then Some a_png else None),
      cache_files = (\<lambda>sPath. None),
      index_file = [],
      io_calls = [],
      GetCacheFilePath = (\<lambda>sDir sPath. sDir @ ''/'' @ sPath),
      IsDiagonalBanner = (\<lambda>iWidth iHeight. 100 \<le> iWidth \<and> \<bar>iWidth - iHeight\<bar> < 2),
      SongBannerTexture = (\<lambda>ID. ID\<lparr>hints := 1\<rparr>),
      heap = (\<lambda>img. None),
      next_ptr = 0,
      g_BannerPathToImage = [],
      g_iDemandRefcount = 0,
      BannerData = []\<rparr>"

text \<open>The same world once the cached banner, 32 by 32, is in memory.\<close>

definition cached_32 :: RageSurface where
  "cached_32 = \<lparr>img_w = 32, img_h = 32, BitsPerPixel = 16, BytesPerPixel = 2,
                 pixels = Dithered (Zoomed (ColorKeyed (Raw 0)))\<rparr>"

definition loaded_world :: World where
  "loaded_world =
     small_world\<lparr>heap := (\<lambda>img. if img = 0 then Some cached_32 else None), next_ptr := 1,
                 g_BannerPathToImage := [(''a.png'', 0)]\<rparr>"

text \<open>Variations: preload mode; caching off; the cache file of \<^verbatim>\<open>a.png\<close> on disk.\<close>

definition preload_world :: World where
  "preload_world =
     small_world\<lparr>PREFSMAN := (PREFSMAN small_world)\<lparr>m_BannerCache := BNCACHE_LOW_RES_PRELOAD\<rparr>\<rparr>"

definition with_cache_file :: "World \<Rightarrow> World" where
  "with_cache_file W =
     W\<lparr>files := (files W)(''Banners/a.png'' := True),
       cache_files := (cache_files W)(''Banners/a.png'' \<mapsto> cached_32)\<rparr>"


definition fast_world :: World where
  "fast_world = small_world\<lparr>PREFSMAN := (PREFSMAN small_world)\<lparr>m_bFastLoad := True\<rparr>\<rparr>"


definition stale_world :: World where
  "stale_world = loaded_world\<lparr>PREFSMAN :=
     (PREFSMAN loaded_world)\<lparr>m_BannerCache := BNCACHE_LOW_RES_PRELOAD\<rparr>\<rparr>"


text \<open>The world with its cache file on disk and its entry in the index.\<close>

definition indexed_world :: World where
  "indexed_world =
     (with_cache_file small_world)\<lparr>BannerData :=
        [(''a.png'', \<lparr>ini_Path = Some ''Banners/a.png'', ini_Width = Some 40,
                       ini_Height = Some 40, ini_FullHash = Some 7, ini_Rotated = Some False\<rparr>)]\<rparr>"

section \<open>Properties\<close>

subsection \<open>The rounded-up power of two\<close>

lemma c_div_nonneg: "0 \<le> a \<Longrightarrow> 0 < b \<Longrightarrow> c_div a b = a div b"
  by (cases "a = 0") (simp_all add: c_div_def)

lemma is_power_of_two_pos: "is_power_of_two n \<Longrightarrow> 0 < n"
  by (auto simp: is_power_of_two_def)

lemma is_power_of_two_double: "is_power_of_two n \<Longrightarrow> is_power_of_two (2 * n)"
proof -
  assume "is_power_of_two n"
  then obtain k :: nat where "n = 2 ^ k" by (auto simp: is_power_of_two_def)
  then have "2 * n = 2 ^ Suc k" by simp
  then show ?thesis unfolding is_power_of_two_def by blast
qed

lemma power_of_two_from_step:
  "0 < iValue \<and> iValue < iInput \<Longrightarrow>
     power_of_two_from iValue iInput = power_of_two_from (2 * iValue) iInput"
  by (subst power_of_two_from.simps) (rule if_P)

lemma power_of_two_from_stop:
  "\<not> (0 < iValue \<and> iValue < iInput) \<Longrightarrow> power_of_two_from iValue iInput = iValue"
  by (subst power_of_two_from.simps) (rule if_not_P)

lemma power_of_two_from_pow2:
  "is_power_of_two iValue \<Longrightarrow> is_power_of_two (power_of_two_from iValue iInput)"
proof (induction iValue iInput rule: power_of_two_from.induct)
  case (1 iValue iInput)
  show ?case
  proof (cases "0 < iValue \<and> iValue < iInput")
    case True
    then have "power_of_two_from iValue iInput = power_of_two_from (2 * iValue) iInput"
      by (rule power_of_two_from_step)
    with 1 True show ?thesis by (simp add: is_power_of_two_double)
  next
    case False
    then have "power_of_two_from iValue iInput = iValue"
      by (rule power_of_two_from_stop)
    with 1 show ?thesis by simp
  qed
qed

lemma power_of_two_from_ge:
  "0 < iValue \<Longrightarrow> iInput \<le> power_of_two_from iValue iInput"
proof (induction iValue iInput rule: power_of_two_from.induct)
  case (1 iValue iInput)
  show ?case
  proof (cases "0 < iValue \<and> iValue < iInput")
    case True
    then have "power_of_two_from iValue iInput = power_of_two_from (2 * iValue) iInput"
      by (rule power_of_two_from_step)
    with 1 True show ?thesis by simp
  next
    case False
    then have "power_of_two_from iValue iInput = iValue"
      by (rule power_of_two_from_stop)
    with 1 False show ?thesis by simp
  qed
qed

lemma power_of_two_from_least:
  "0 < iValue \<Longrightarrow> iValue \<le> 2 ^ k \<Longrightarrow> iInput \<le> 2 ^ k \<Longrightarrow> (\<exists>j::nat. iValue = 2 ^ j)
    \<Longrightarrow> power_of_two_from iValue iInput \<le> 2 ^ k"
proof (induction iValue iInput rule: power_of_two_from.induct)
  case (1 iValue iInput)
  show ?case
  proof (cases "0 < iValue \<and> iValue < iInput")
    case True
    then have eq: "power_of_two_from iValue iInput = power_of_two_from (2 * iValue) iInput"
      by (rule power_of_two_from_step)
    from 1 obtain j :: nat where j: "iValue = 2 ^ j" by blast
    have "iValue < iInput" using True by simp
    also have "iInput \<le> 2 ^ k" by (rule "1.prems"(3))
    finally have "(2::int) ^ j < 2 ^ k" unfolding j .
    then have "j < k" by simp
    then have "Suc j \<le> k" by simp
    then have "(2::int) ^ Suc j \<le> 2 ^ k" by (rule power_increasing) simp
    then have le: "2 * iValue \<le> 2 ^ k" using j by simp
    have "\<exists>j'::nat. 2 * iValue = 2 ^ j'" using j by (intro exI[of _ "Suc j"]) simp
    with 1 True le show ?thesis unfolding eq by simp
  next
    case False
    then have "power_of_two_from iValue iInput = iValue"
      by (rule power_of_two_from_stop)
    with 1 show ?thesis by simp
  qed
qed

text \<open>
  The modelled \<open>power_of_two\<close> is what the spec says: a power of two, not below its
  argument, and the least such. A power of two is its own rounding, which is how the
  assertions of lines 225 and 226 test for one.
\<close>

lemma power_of_two_is_power_of_two: "is_power_of_two (power_of_two iInput)"
  unfolding power_of_two_def
  by (rule power_of_two_from_pow2) (simp add: is_power_of_two_def exI[of _ 0])

lemma power_of_two_ge: "iInput \<le> power_of_two iInput"
  unfolding power_of_two_def by (rule power_of_two_from_ge) simp

lemma power_of_two_least: "iInput \<le> 2 ^ k \<Longrightarrow> power_of_two iInput \<le> 2 ^ k"
  unfolding power_of_two_def
  by (rule power_of_two_from_least) (simp_all add: exI[of _ 0])

lemma power_of_two_fixed_iff: "power_of_two n = n \<longleftrightarrow> is_power_of_two n"
proof
  assume "power_of_two n = n"
  then show "is_power_of_two n" using power_of_two_is_power_of_two [of n] by simp
next
  assume "is_power_of_two n"
  then obtain k :: nat where k: "n = 2 ^ k" by (auto simp: is_power_of_two_def)
  then have "power_of_two n \<le> n" using power_of_two_least [of n k] by simp
  with power_of_two_ge [of n] show "power_of_two n = n" by simp
qed

lemma half_power_of_two:
  "is_power_of_two p \<Longrightarrow> c_div p 2 = 0 \<or> is_power_of_two (c_div p 2)"
proof -
  assume "is_power_of_two p"
  then obtain k :: nat where k: "p = 2 ^ k" by (auto simp: is_power_of_two_def)
  show ?thesis
  proof (cases k)
    case 0
    with k show ?thesis by (simp add: c_div_def)
  next
    case (Suc j)
    with k have "c_div p 2 = 2 ^ j" by (simp add: c_div_nonneg)
    then show ?thesis unfolding is_power_of_two_def by blast
  qed
qed

lemma max_power_of_two:
  "a = 0 \<or> is_power_of_two a \<Longrightarrow> is_power_of_two b \<Longrightarrow> is_power_of_two (max a b)"
  by (auto simp: max_def dest: is_power_of_two_pos)

lemma is_power_of_two_32: "is_power_of_two 32"
  unfolding is_power_of_two_def by (rule exI[of _ 5]) simp

lemma snap_half_cases: "snap_half d = 0 \<or> is_power_of_two (snap_half d)"
  using half_power_of_two [OF power_of_two_is_power_of_two [of "c_div d 2"]]
    power_of_two_is_power_of_two [of "c_div d 2"]
  by (auto simp: snap_half_def closest_def Let_def)

lemma resize_target_is_power_of_two: "is_power_of_two (resize_target d)"
proof -
  have floor: "is_power_of_two (min 32 (power_of_two d))"
    using is_power_of_two_32 power_of_two_is_power_of_two [of d] by (simp add: min_def)
  show ?thesis
    unfolding resize_target_def Let_def by (rule max_power_of_two [OF snap_half_cases floor])
qed


lemma closest_tie: "\<bar>num - n1\<bar> = \<bar>num - n2\<bar> \<Longrightarrow> closest num n1 n2 = n1"
  by (simp add: closest_def)


subsection \<open>What a regeneration does\<close>

lemmas filter_defs = ApplyHotPinkColorKey_def ConvertSurface_def CreateSurface_def
  BlitTransform_def Zoom_def Palettize_def OrderedDither_def update_surface_def
  new_surface_def delete_surface_def deref_def

lemma heap_frame_trans: "heap_frame b W W' \<Longrightarrow> heap_frame b W' W'' \<Longrightarrow> heap_frame b W W''"
  by (simp add: heap_frame_def)

lemma Unrotate_step:
  assumes "heap W img = Some s" "b \<le> img" "img < next_ptr W"
  shows "case UnrotateDiagonalBanner img W of (img', rot, W') \<Rightarrow>
           heap_frame b W W' \<and> b \<le> img' \<and> img' < next_ptr W' \<and>
           rot = IsDiagonalBanner W (img_w s) (img_h s) \<and>
           (case heap W' img' of None \<Rightarrow> False
            | Some s' \<Rightarrow> img_w s' = (if rot then 256 else img_w s) \<and>
                         img_h s' = (if rot then 64 else img_h s))"
  using assms
  by (simp add: UnrotateDiagonalBanner_def filter_defs Let_def heap_frame_def)

lemma Resize_step:
  assumes "heap W img = Some s" "b \<le> img" "img < next_ptr W"
  shows "case ResizeBanner img W of (iSourceWidth, iSourceHeight, W') \<Rightarrow>
           heap_frame b W W' \<and> next_ptr W' = next_ptr W \<and>
           iSourceWidth = img_w s \<and> iSourceHeight = img_h s \<and>
           (case heap W' img of None \<Rightarrow> False
            | Some s' \<Rightarrow> img_w s' = resize_target (img_w s) \<and>
                         img_h s' = resize_target (img_h s))"
  using assms
  by (simp add: ResizeBanner_def filter_defs Let_def heap_frame_def)

lemma Encode_step:
  assumes "heap W img = Some s" "b \<le> img" "img < next_ptr W"
  shows "case EncodeBanner img W of (img', W') \<Rightarrow>
           heap_frame b W W' \<and> b \<le> img' \<and> img' < next_ptr W' \<and>
           (case heap W' img' of None \<Rightarrow> False
            | Some s' \<Rightarrow> img_w s' = img_w s \<and> img_h s' = img_h s)"
  using assms
  by (simp add: EncodeBanner_def filter_defs Let_def heap_frame_def)

text \<open>When the source does not decode, the attempt is recorded and nothing else changes.\<close>

lemma CacheBannerInternal_undecodable:
  "decodable W p = None \<Longrightarrow>
     CacheBannerInternal p W = W\<lparr>io_calls := io_calls W @ [Call_LoadFile p]\<rparr>"
  by (simp add: CacheBannerInternal_def RageSurfaceUtils_LoadFile_def)

text \<open>
  When it decodes: the collaborators are left alone but for the cache file and the index
  file; the cache file holds a surface of the target dimensions; the entry of the path in
  \<^verbatim>\<open>g_BannerPathToImage\<close> is the new image in preload mode and is gone otherwise; the
  image that was loaded before is freed; no other live surface is touched.
\<close>

lemma CacheBannerInternal_decodable:
  assumes dec: "decodable W p = Some src"
  shows "let W' = CacheBannerInternal p W;
             CachePath = GetBannerCachePath W p;
             bPreload = (m_BannerCache (PREFSMAN W) = BNCACHE_LOW_RES_PRELOAD);
             bDiagonal = IsDiagonalBanner W (img_w src) (img_h src)
         in PREFSMAN W' = PREFSMAN W \<and>
            DISPLAY W' = DISPLAY W \<and>
            TEXTUREMAN W' = TEXTUREMAN W \<and>
            file_hash W' = file_hash W \<and>
            decodable W' = decodable W \<and>
            GetCacheFilePath W' = GetCacheFilePath W \<and>
            IsDiagonalBanner W' = IsDiagonalBanner W \<and>
            SongBannerTexture W' = SongBannerTexture W \<and>
            g_iDemandRefcount W' = g_iDemandRefcount W \<and>
            files W' = (files W)(CachePath := True) \<and>
            io_calls W' =
              io_calls W @ [Call_LoadFile p, Call_SaveSurface CachePath, Call_WriteFile] \<and>
            index_file W' = BannerData W' \<and>
            next_ptr W < next_ptr W' \<and>
            (\<forall>q. q \<noteq> CachePath \<longrightarrow> cache_files W' q = cache_files W q) \<and>
            (\<forall>q. q \<noteq> p \<longrightarrow>
               map_of (g_BannerPathToImage W') q = map_of (g_BannerPathToImage W) q) \<and>
            (\<exists>s. cache_files W' CachePath = Some s \<and>
                 img_w s = resize_target (if bDiagonal then 256 else img_w src) \<and>
                 img_h s = resize_target (if bDiagonal then 64 else img_h src) \<and>
                 (if bPreload then
                    (\<exists>img. map_of (g_BannerPathToImage W') p = Some img \<and>
                       next_ptr W \<le> img \<and> img < next_ptr W' \<and>
                       ((\<forall>old. map_of (g_BannerPathToImage W) p = Some old \<longrightarrow>
                               old < next_ptr W) \<longrightarrow>
                          heap W' img = Some s))
                  else map_of (g_BannerPathToImage W') p = None)) \<and>
            (\<forall>old. map_of (g_BannerPathToImage W) p = Some old \<longrightarrow> heap W' old = None) \<and>
            (\<forall>a. a < next_ptr W \<and> map_of (g_BannerPathToImage W) p \<noteq> Some a \<longrightarrow>
               heap W' a = heap W a)"
proof -
  define b where "b = next_ptr W"
  define W1 where "W1 = W\<lparr>io_calls := io_calls W @ [Call_LoadFile p],
                          heap := (heap W)(b \<mapsto> src), next_ptr := Suc b\<rparr>"
  have lf: "RageSurfaceUtils_LoadFile p W = (Some b, W1)"
    using dec by (simp add: RageSurfaceUtils_LoadFile_def new_surface_def W1_def b_def)
  have h1: "heap W1 b = Some src" and n1: "b < next_ptr W1"
    by (simp_all add: W1_def)
  obtain img2 rot W2 where u: "UnrotateDiagonalBanner b W1 = (img2, rot, W2)"
    by (metis prod_cases3)
  from Unrotate_step [OF h1 order_refl n1] u
  obtain s2 where f2: "heap_frame b W1 W2" "b \<le> img2" "img2 < next_ptr W2"
      "rot = IsDiagonalBanner W1 (img_w src) (img_h src)"
      "heap W2 img2 = Some s2" "img_w s2 = (if rot then 256 else img_w src)"
      "img_h s2 = (if rot then 64 else img_h src)"
    by (auto split: option.splits)
  obtain iSW iSH W3 where r: "ResizeBanner img2 W2 = (iSW, iSH, W3)"
    by (metis prod_cases3)
  from Resize_step [OF f2(5) f2(2) f2(3)] r
  obtain s3 where f3: "heap_frame b W2 W3" "next_ptr W3 = next_ptr W2"
      "iSW = img_w s2" "iSH = img_h s2"
      "heap W3 img2 = Some s3" "img_w s3 = resize_target (img_w s2)"
      "img_h s3 = resize_target (img_h s2)"
    by (auto split: option.splits)
  have n3: "img2 < next_ptr W3" using f2(3) f3(2) by simp
  obtain img4 W4 where e: "EncodeBanner img2 W3 = (img4, W4)"
    by (cases "EncodeBanner img2 W3")
  from Encode_step [OF f3(5) f2(2) n3] e
  obtain s4 where f4: "heap_frame b W3 W4" "b \<le> img4" "img4 < next_ptr W4"
      "heap W4 img4 = Some s4" "img_w s4 = img_w s3" "img_h s4 = img_h s3"
    by (auto split: option.splits)
  have hf: "heap_frame b W1 W4"
    using f2(1) f3(1) f4(1) by (blast intro: heap_frame_trans)
  have sel: "PREFSMAN W4 = PREFSMAN W" "DISPLAY W4 = DISPLAY W" "TEXTUREMAN W4 = TEXTUREMAN W"
      "files W4 = files W" "file_hash W4 = file_hash W" "decodable W4 = decodable W"
      "cache_files W4 = cache_files W" "index_file W4 = index_file W"
      "io_calls W4 = io_calls W @ [Call_LoadFile p]" "GetCacheFilePath W4 = GetCacheFilePath W"
      "IsDiagonalBanner W4 = IsDiagonalBanner W" "SongBannerTexture W4 = SongBannerTexture W"
      "g_BannerPathToImage W4 = g_BannerPathToImage W"
      "g_iDemandRefcount W4 = g_iDemandRefcount W" "BannerData W4 = BannerData W"
      "next_ptr W < next_ptr W4" "\<forall>a<next_ptr W. heap W4 a = heap W a"
    using hf by (simp_all add: heap_frame_def W1_def b_def)
  have rot: "rot = IsDiagonalBanner W (img_w src) (img_h src)"
    using f2(4) by (simp add: W1_def)
  have eq: "CacheBannerInternal p W =
      RememberBanner p (GetBannerCachePath W p) iSW iSH rot
        (ReplaceLoadedBanner p img4
           (RageSurfaceUtils_SaveSurface img4 (GetBannerCachePath W p) W4))"
    by (simp add: CacheBannerInternal_def lf u r e GetBannerCachePath_def sel Let_def)
  show ?thesis
    unfolding eq Let_def
    using sel rot f2(2,6,7) f3(3,4,6,7) f4(2-)
    by (simp add: RememberBanner_def ReplaceLoadedBanner_def RageSurfaceUtils_SaveSurface_def
        WriteFile_def delete_surface_def deref_def b_def Let_def
        update_conv' delete_conv' GetBannerCachePath_def
        split: option.splits)
qed


subsection \<open>Dimensions of the cached banner\<close>




lemma power_of_two_32: "power_of_two 32 = 32"
  by code_simp

text \<open>
  \<^verbatim>\<open>BannerTexture::Create\<close> reaches \<^verbatim>\<open>DISPLAY->CreateTexture\<close> only past the two
  assertions of lines 225 and 226.
\<close>

lemma BannerTexture_Create_power_of_two:
  assumes "BannerTexture_Create ID slot wd ht W = Inr (t, W')"
  shows "\<exists>pf s. created_textures (DISPLAY W') = created_textures (DISPLAY W) @ [(pf, s)] \<and>
           is_power_of_two (img_w s) \<and> is_power_of_two (img_h s)"
  using assms
  by (auto simp: BannerTexture_Create_def CreateTexture_def Let_def Zoom_def update_surface_def
      deref_def power_of_two_fixed_iff [symmetric]
      split: option.splits if_splits)

lemma Create_loaded_world:
  "BannerTexture_Create ID ''a.png'' 40 40 loaded_world =
     Inr (\<lparr>tex_ID = ID, m_uTexHandle = 1, img_ref = ''a.png'', m_iSourceWidth = 40,
            m_iSourceHeight = 40, m_iTextureWidth = 32, m_iTextureHeight = 32,
            m_iImageWidth = 32, m_iImageHeight = 32\<rparr>,
          loaded_world\<lparr>DISPLAY := (DISPLAY loaded_world)\<lparr>created_textures :=
            [(PixelFormat_RGB5A1, cached_32)]\<rparr>\<rparr>)"
  by (simp add: BannerTexture_Create_def loaded_world_def small_world_def cached_32_def
      deref_def CreateTexture_def power_of_two_32 Let_def)

text \<open>
  C2. The target dimension that lines 431 to 441 compute is a power of two, whatever the
  source dimension. Hence, whenever the transform-and-persist step
  \<^verbatim>\<open>CacheBannerInternal\<close> runs to completion (the source decodes), the cache file of
  the path holds a surface whose width and height are powers of two, each equal to its
  own \<^verbatim>\<open>power_of_two\<close>, as the assertions of \<^verbatim>\<open>BannerTexture::Create\<close> demand. And
  whenever \<^verbatim>\<open>BannerTexture::Create\<close> returns, the one surface it handed to
  \<^verbatim>\<open>DISPLAY->CreateTexture\<close> has power-of-two dimensions.
\<close>

theorem cached_banner_power_of_two:
  "is_power_of_two (resize_target d) \<and>
   (decodable W sBannerPath = Some src \<longrightarrow>
      (\<exists>s. cache_files (CacheBannerInternal sBannerPath W) (GetBannerCachePath W sBannerPath)
             = Some s \<and>
           is_power_of_two (img_w s) \<and> is_power_of_two (img_h s) \<and>
           img_w s = power_of_two (img_w s) \<and> img_h s = power_of_two (img_h s))) \<and>
   (BannerTexture_Create ID slot wd ht V = Inr (t, V') \<longrightarrow>
      (\<exists>pf s. created_textures (DISPLAY V') = created_textures (DISPLAY V) @ [(pf, s)] \<and>
           is_power_of_two (img_w s) \<and> is_power_of_two (img_h s)))"
proof (intro conjI impI)
  show "is_power_of_two (resize_target d)" by (rule resize_target_is_power_of_two)
next
  assume "decodable W sBannerPath = Some src"
  from CacheBannerInternal_decodable [OF this]
  obtain s where
    "cache_files (CacheBannerInternal sBannerPath W) (GetBannerCachePath W sBannerPath) = Some s"
    and "img_w s =
      resize_target (if IsDiagonalBanner W (img_w src) (img_h src) then 256 else img_w src)"
    and "img_h s =
      resize_target (if IsDiagonalBanner W (img_w src) (img_h src) then 64 else img_h src)"
    unfolding Let_def by blast
  moreover from this have "is_power_of_two (img_w s)" "is_power_of_two (img_h s)"
    by (simp_all only: resize_target_is_power_of_two)
  moreover from this have "img_w s = power_of_two (img_w s)" "img_h s = power_of_two (img_h s)"
    by (simp_all only: power_of_two_fixed_iff [THEN iffD2])
  ultimately show
    "\<exists>s. cache_files (CacheBannerInternal sBannerPath W) (GetBannerCachePath W sBannerPath)
           = Some s \<and>
         is_power_of_two (img_w s) \<and> is_power_of_two (img_h s) \<and>
         img_w s = power_of_two (img_w s) \<and> img_h s = power_of_two (img_h s)"
    by blast
next
  assume "BannerTexture_Create ID slot wd ht V = Inr (t, V')"
  then show "\<exists>pf s. created_textures (DISPLAY V') = created_textures (DISPLAY V) @ [(pf, s)] \<and>
           is_power_of_two (img_w s) \<and> is_power_of_two (img_h s)"
    by (rule BannerTexture_Create_power_of_two)
qed

theorem cached_banner_power_of_two_witness:
  "decodable small_world ''a.png'' = Some a_png \<and>
   (\<exists>s. cache_files (CacheBannerInternal ''a.png'' small_world) ''Banners/a.png'' = Some s \<and>
        is_power_of_two (img_w s) \<and> is_power_of_two (img_h s)) \<and>
   (\<exists>t V'. BannerTexture_Create \<lparr>filename = ''Banners/a.png'', hints = 1, Policy = TEX_DEFAULT\<rparr>
              ''a.png'' 40 40 loaded_world = Inr (t, V') \<and>
      (\<exists>pf s. created_textures (DISPLAY V') = [(pf, s)] \<and>
           is_power_of_two (img_w s) \<and> is_power_of_two (img_h s)))"
proof -
  define ID where "ID = \<lparr>filename = ''Banners/a.png'', hints = 1, Policy = TEX_DEFAULT\<rparr>"
  define t where "t = \<lparr>tex_ID = ID, m_uTexHandle = 1, img_ref = ''a.png'', m_iSourceWidth = 40,
            m_iSourceHeight = 40, m_iTextureWidth = 32, m_iTextureHeight = 32,
            m_iImageWidth = 32, m_iImageHeight = 32\<rparr>"
  define V' where "V' = loaded_world\<lparr>DISPLAY := (DISPLAY loaded_world)\<lparr>created_textures :=
            [(PixelFormat_RGB5A1, cached_32)]\<rparr>\<rparr>"
  have d: "decodable small_world ''a.png'' = Some a_png"
    by (simp add: small_world_def)
  have p: "GetBannerCachePath small_world ''a.png'' = ''Banners/a.png''"
    by (simp add: GetBannerCachePath_def small_world_def)
  have e: "created_textures (DISPLAY loaded_world) = []"
    by (simp add: loaded_world_def small_world_def)
  have c: "BannerTexture_Create ID ''a.png'' 40 40 loaded_world = Inr (t, V')"
    unfolding t_def V'_def by (rule Create_loaded_world)
  from cached_banner_power_of_two
    [of 40 small_world "''a.png''" a_png ID "''a.png''" 40 40 loaded_world t V']
  have "\<exists>s. cache_files (CacheBannerInternal ''a.png'' small_world) ''Banners/a.png'' = Some s \<and>
        is_power_of_two (img_w s) \<and> is_power_of_two (img_h s)"
    and "\<exists>pf s. created_textures (DISPLAY V') = [(pf, s)] \<and>
           is_power_of_two (img_w s) \<and> is_power_of_two (img_h s)"
    using d p c e by auto
  with d c show ?thesis unfolding ID_def by blast
qed

text \<open>
  C6. When the halved dimension \<open>width\<close> is exactly as far from its rounded-up power of
  two as from the power of two before it, the \<^verbatim>\<open>closest\<close> of lines 435 and 436 returns
  the rounded-up one, which is the larger of the two.
\<close>

theorem snap_half_tie_rounds_up:
  assumes "\<bar>width - power_of_two width\<bar> = \<bar>width - c_div (power_of_two width) 2\<bar>"
  shows "closest width (power_of_two width) (c_div (power_of_two width) 2) = power_of_two width \<and>
         c_div (power_of_two width) 2 < power_of_two width \<and>
         (c_div iSourceWidth 2 = width \<longrightarrow> snap_half iSourceWidth = power_of_two width)"
proof -
  have tie: "closest width (power_of_two width) (c_div (power_of_two width) 2) =
      power_of_two width"
    using assms by (rule closest_tie)
  have "0 < power_of_two width"
    by (rule is_power_of_two_pos [OF power_of_two_is_power_of_two])
  then have "c_div (power_of_two width) 2 < power_of_two width"
    by (simp add: c_div_nonneg)
  with tie show ?thesis by (simp add: snap_half_def Let_def)
qed

lemma tie_at_3: "c_div 6 2 = 3" "power_of_two 3 = 4" "c_div 4 2 = 2"
  by code_simp+

theorem snap_half_tie_rounds_up_witness:
  "\<bar>3 - power_of_two 3\<bar> = \<bar>3 - c_div (power_of_two 3) 2\<bar> \<and>
   closest 3 4 2 = 4 \<and> c_div 6 2 = 3 \<and> snap_half 6 = 4"
  using snap_half_tie_rounds_up [of 3 6] by (simp add: tie_at_3)




subsection \<open>Loading a banner\<close>

lemma LoadSurface_absent:
  "cache_files W sPath = None \<Longrightarrow>
     RageSurfaceUtils_LoadSurface sPath W =
       (None, W\<lparr>io_calls := io_calls W @ [Call_LoadSurface sPath]\<rparr>)"
  by (simp add: RageSurfaceUtils_LoadSurface_def)

lemma LoadSurface_present:
  "cache_files W sPath = Some s \<Longrightarrow>
     RageSurfaceUtils_LoadSurface sPath W =
       (Some (next_ptr W),
        W\<lparr>io_calls := io_calls W @ [Call_LoadSurface sPath],
          heap := (heap W)(next_ptr W \<mapsto> s), next_ptr := Suc (next_ptr W)\<rparr>)"
  by (simp add: RageSurfaceUtils_LoadSurface_def new_surface_def)

lemma LoadBanner_loop_done: "LoadBanner_loop 2 p cp W = W"
  by (subst LoadBanner_loop.simps) simp

lemma LoadBanner_loop_resident:
  "map_of (g_BannerPathToImage W) p \<noteq> None \<Longrightarrow> LoadBanner_loop tries p cp W = W"
  by (subst LoadBanner_loop.simps) simp

lemma LoadBanner_loop_present:
  assumes "tries < 2" "map_of (g_BannerPathToImage W) p = None" "cache_files W cp = Some s"
  shows "LoadBanner_loop tries p cp W =
     W\<lparr>io_calls := io_calls W @ [Call_LoadSurface cp],
       heap := (heap W)(next_ptr W \<mapsto> s), next_ptr := Suc (next_ptr W),
       g_BannerPathToImage := AList.update p (next_ptr W) (g_BannerPathToImage W)\<rparr>"
  using assms
  by (subst LoadBanner_loop.simps)
     (simp add: LoadSurface_present LoadBanner_loop_resident update_conv')

lemma LoadBanner_loop_retry_absent:
  assumes "map_of (g_BannerPathToImage W) p = None" "cache_files W cp = None"
  shows "LoadBanner_loop 1 p cp W = W\<lparr>io_calls := io_calls W @ [Call_LoadSurface cp]\<rparr>"
  using assms
  by (subst LoadBanner_loop.simps) (simp add: LoadSurface_absent)

lemma LoadBanner_loop_first_absent:
  assumes "map_of (g_BannerPathToImage W) p = None" "cache_files W cp = None"
  shows "LoadBanner_loop 0 p cp W =
     LoadBanner_loop 1 p cp
       (CacheBannerInternal p (W\<lparr>io_calls := io_calls W @ [Call_LoadSurface cp]\<rparr>))"
  using assms
  by (subst LoadBanner_loop.simps) (simp add: LoadSurface_absent)

lemma LoadBanner_resident:
  "map_of (g_BannerPathToImage W) p \<noteq> None \<Longrightarrow> LoadBanner p W = W"
  by (simp add: LoadBanner_def LoadBanner_loop_resident)

lemma LoadBanner_present:
  assumes "m_BannerCache (PREFSMAN W) \<noteq> BNCACHE_OFF" "p \<noteq> []"
    "map_of (g_BannerPathToImage W) p = None"
    "cache_files W (GetBannerCachePath W p) = Some s"
  shows "LoadBanner p W =
     W\<lparr>io_calls := io_calls W @ [Call_LoadSurface (GetBannerCachePath W p)],
       heap := (heap W)(next_ptr W \<mapsto> s), next_ptr := Suc (next_ptr W),
       g_BannerPathToImage := AList.update p (next_ptr W) (g_BannerPathToImage W)\<rparr>"
  using assms
  by (cases "m_BannerCache (PREFSMAN W)") (simp_all add: LoadBanner_def LoadBanner_loop_present)

lemma LoadBanner_undecodable:
  assumes "m_BannerCache (PREFSMAN W) \<noteq> BNCACHE_OFF" "p \<noteq> []"
    "map_of (g_BannerPathToImage W) p = None"
    "cache_files W (GetBannerCachePath W p) = None"
    "decodable W p = None"
  shows "LoadBanner p W =
     W\<lparr>io_calls := io_calls W @ [Call_LoadSurface (GetBannerCachePath W p), Call_LoadFile p,
                                 Call_LoadSurface (GetBannerCachePath W p)]\<rparr>"
  using assms
  by (cases "m_BannerCache (PREFSMAN W)")
     (simp_all add: LoadBanner_def LoadBanner_loop_first_absent CacheBannerInternal_undecodable
        LoadBanner_loop_retry_absent)

lemma LoadBanner_regenerate_preload:
  assumes "m_BannerCache (PREFSMAN W) = BNCACHE_LOW_RES_PRELOAD" "p \<noteq> []"
    "map_of (g_BannerPathToImage W) p = None"
    "cache_files W (GetBannerCachePath W p) = None"
    "decodable W p = Some src"
  shows "LoadBanner p W =
     CacheBannerInternal p
       (W\<lparr>io_calls := io_calls W @ [Call_LoadSurface (GetBannerCachePath W p)]\<rparr>)"
proof -
  define W1 where "W1 = W\<lparr>io_calls := io_calls W @ [Call_LoadSurface (GetBannerCachePath W p)]\<rparr>"
  have "decodable W1 p = Some src" "m_BannerCache (PREFSMAN W1) = BNCACHE_LOW_RES_PRELOAD"
    using assms by (simp_all add: W1_def)
  with CacheBannerInternal_decodable [of W1 p src]
  have "map_of (g_BannerPathToImage (CacheBannerInternal p W1)) p \<noteq> None"
    unfolding Let_def by auto
  then show ?thesis
    using assms unfolding W1_def [symmetric]
    by (simp add: LoadBanner_def LoadBanner_loop_first_absent LoadBanner_loop_resident
        W1_def [symmetric])
qed

lemma LoadBanner_regenerate_on_demand:
  assumes "m_BannerCache (PREFSMAN W) = BNCACHE_LOW_RES_LOAD_ON_DEMAND" "p \<noteq> []"
    "map_of (g_BannerPathToImage W) p = None"
    "cache_files W (GetBannerCachePath W p) = None"
    "decodable W p = Some src"
  shows "\<exists>s W2. W2 = CacheBannerInternal p
                   (W\<lparr>io_calls := io_calls W @ [Call_LoadSurface (GetBannerCachePath W p)]\<rparr>) \<and>
     cache_files W2 (GetBannerCachePath W p) = Some s \<and>
     LoadBanner p W =
       W2\<lparr>io_calls := io_calls W2 @ [Call_LoadSurface (GetBannerCachePath W p)],
          heap := (heap W2)(next_ptr W2 \<mapsto> s), next_ptr := Suc (next_ptr W2),
          g_BannerPathToImage := AList.update p (next_ptr W2) (g_BannerPathToImage W2)\<rparr>"
proof -
  define cp where "cp = GetBannerCachePath W p"
  define W1 where "W1 = W\<lparr>io_calls := io_calls W @ [Call_LoadSurface cp]\<rparr>"
  define W2 where "W2 = CacheBannerInternal p W1"
  have w1: "decodable W1 p = Some src"
      "m_BannerCache (PREFSMAN W1) = BNCACHE_LOW_RES_LOAD_ON_DEMAND"
      "GetBannerCachePath W1 p = cp"
    using assms by (simp_all add: W1_def cp_def GetBannerCachePath_def)
  from CacheBannerInternal_decodable [of W1 p src] w1
  obtain s where s: "cache_files W2 cp = Some s" "map_of (g_BannerPathToImage W2) p = None"
    unfolding Let_def W2_def by auto
  have "LoadBanner p W = LoadBanner_loop 0 p cp W"
    using assms by (simp add: LoadBanner_def cp_def)
  also have "\<dots> = LoadBanner_loop 1 p cp W2"
    using assms unfolding W2_def W1_def
    by (intro LoadBanner_loop_first_absent) (simp_all add: cp_def)
  also have "\<dots> = W2\<lparr>io_calls := io_calls W2 @ [Call_LoadSurface cp],
          heap := (heap W2)(next_ptr W2 \<mapsto> s), next_ptr := Suc (next_ptr W2),
          g_BannerPathToImage := AList.update p (next_ptr W2) (g_BannerPathToImage W2)\<rparr>"
    using s by (simp add: LoadBanner_loop_present)
  finally show ?thesis
    using s(1) unfolding W2_def W1_def cp_def by blast
qed

lemma LoadBanner_io_calls:
  assumes "m_BannerCache (PREFSMAN W) \<noteq> BNCACHE_OFF" "p \<noteq> []"
    "map_of (g_BannerPathToImage W) p = None"
  shows "io_calls (LoadBanner p W) =
     io_calls W @ Call_LoadSurface (GetBannerCachePath W p) #
       (if cache_files W (GetBannerCachePath W p) \<noteq> None then []
        else Call_LoadFile p #
          (if decodable W p = None then [Call_LoadSurface (GetBannerCachePath W p)]
           else Call_SaveSurface (GetBannerCachePath W p) # Call_WriteFile #
             (if m_BannerCache (PREFSMAN W) = BNCACHE_LOW_RES_PRELOAD then []
              else [Call_LoadSurface (GetBannerCachePath W p)])))"
proof (cases "cache_files W (GetBannerCachePath W p)")
  case (Some s)
  with assms show ?thesis by (simp add: LoadBanner_present)
next
  case None
  define W1 where
    "W1 = W\<lparr>io_calls := io_calls W @ [Call_LoadSurface (GetBannerCachePath W p)]\<rparr>"
  have cp: "GetBannerCachePath W1 p = GetBannerCachePath W p"
    by (simp add: W1_def GetBannerCachePath_def)
  show ?thesis
  proof (cases "decodable W p")
    case dn: None
    with assms None show ?thesis by (simp add: LoadBanner_undecodable)
  next
    case (Some src)
    then have d1: "decodable W1 p = Some src" by (simp add: W1_def)
    from CacheBannerInternal_decodable [OF d1]
    have io: "io_calls (CacheBannerInternal p W1) =
        io_calls W @ [Call_LoadSurface (GetBannerCachePath W p), Call_LoadFile p,
                      Call_SaveSurface (GetBannerCachePath W p), Call_WriteFile]"
      unfolding Let_def cp by (simp add: W1_def)
    show ?thesis
    proof (cases "m_BannerCache (PREFSMAN W) = BNCACHE_LOW_RES_PRELOAD")
      case True
      with assms None Some io show ?thesis
        by (simp add: LoadBanner_regenerate_preload W1_def)
    next
      case False
      with assms(1) have od: "m_BannerCache (PREFSMAN W) = BNCACHE_LOW_RES_LOAD_ON_DEMAND"
        by (cases "m_BannerCache (PREFSMAN W)") simp_all
      from LoadBanner_regenerate_on_demand [OF od assms(2,3) None Some] io
      show ?thesis using od Some None by (auto simp: W1_def)
    qed
  qed
qed


text \<open>
  C3, as amended. A call of \<^verbatim>\<open>LoadBanner\<close> in a low-resolution mode, for a path that
  is not empty and not in memory, whose load of the cache file fails, calls
  \<^verbatim>\<open>CacheBannerInternal\<close> exactly once (one more \<^verbatim>\<open>LoadFile\<close> of the source).
  If the regeneration left the image in memory, which is the case exactly in preload mode
  with a source that decodes, the call ends there, with no second load of the cache file.
  Otherwise the cache file is loaded exactly once more, and if that load fails too the
  call returns with nothing changed but the record of the three attempts: the path has no
  entry in memory.
\<close>

theorem LoadBanner_one_regeneration:
  assumes "m_BannerCache (PREFSMAN W) \<noteq> BNCACHE_OFF" "sBannerPath \<noteq> []"
    "map_of (g_BannerPathToImage W) sBannerPath = None"
    "cache_files W (GetBannerCachePath W sBannerPath) = None"
  shows "let CachePath = GetBannerCachePath W sBannerPath;
             W1 = W\<lparr>io_calls := io_calls W @ [Call_LoadSurface CachePath]\<rparr>;
             W2 = CacheBannerInternal sBannerPath W1;
             W' = LoadBanner sBannerPath W
         in count_list (io_calls W') (Call_LoadFile sBannerPath) =
              count_list (io_calls W) (Call_LoadFile sBannerPath) + 1 \<and>
            (map_of (g_BannerPathToImage W2) sBannerPath \<noteq> None \<longleftrightarrow>
               m_BannerCache (PREFSMAN W) = BNCACHE_LOW_RES_PRELOAD \<and>
               decodable W sBannerPath \<noteq> None) \<and>
            (if map_of (g_BannerPathToImage W2) sBannerPath \<noteq> None then
               W' = W2 \<and>
               count_list (io_calls W') (Call_LoadSurface CachePath) =
                 count_list (io_calls W) (Call_LoadSurface CachePath) + 1
             else
               count_list (io_calls W') (Call_LoadSurface CachePath) =
                 count_list (io_calls W) (Call_LoadSurface CachePath) + 2 \<and>
               (cache_files W2 CachePath = None \<longrightarrow>
                  W' = W\<lparr>io_calls := io_calls W @
                         [Call_LoadSurface CachePath, Call_LoadFile sBannerPath,
                          Call_LoadSurface CachePath]\<rparr> \<and>
                  map_of (g_BannerPathToImage W') sBannerPath = None))"
proof -
  define cp where "cp = GetBannerCachePath W sBannerPath"
  define W1 where "W1 = W\<lparr>io_calls := io_calls W @ [Call_LoadSurface cp]\<rparr>"
  define W2 where "W2 = CacheBannerInternal sBannerPath W1"
  note io = LoadBanner_io_calls [OF assms(1-3), unfolded cp_def [symmetric]]
  have c1: "GetBannerCachePath W1 sBannerPath = cp"
    by (simp add: W1_def cp_def GetBannerCachePath_def)
  have none: "cache_files W cp = None" using assms(4) by (simp add: cp_def)
  have "?thesis" if dn: "decodable W sBannerPath = None"
  proof -
    have w2: "W2 = W\<lparr>io_calls := io_calls W @ [Call_LoadSurface cp, Call_LoadFile sBannerPath]\<rparr>"
      using dn by (simp add: W2_def W1_def CacheBannerInternal_undecodable)
    have lb: "LoadBanner sBannerPath W =
        W\<lparr>io_calls := io_calls W @ [Call_LoadSurface cp, Call_LoadFile sBannerPath,
                                    Call_LoadSurface cp]\<rparr>"
      using assms dn by (simp add: LoadBanner_undecodable cp_def)
    show ?thesis
      unfolding Let_def cp_def [symmetric] W1_def [symmetric] W2_def [symmetric]
      using assms(3) dn by (simp add: w2 lb)
  qed
  moreover have "?thesis" if ds: "decodable W sBannerPath = Some src" for src
  proof -
    have d1: "decodable W1 sBannerPath = Some src" using ds by (simp add: W1_def)
    note cbi = CacheBannerInternal_decodable [OF d1, unfolded Let_def c1, folded W2_def]
    have m1: "m_BannerCache (PREFSMAN W1) = m_BannerCache (PREFSMAN W)" by (simp add: W1_def)
    from cbi obtain s where s: "cache_files W2 cp = Some s" by blast
    show ?thesis
    proof (cases "m_BannerCache (PREFSMAN W) = BNCACHE_LOW_RES_PRELOAD")
      case True
      with cbi m1 have res: "map_of (g_BannerPathToImage W2) sBannerPath \<noteq> None" by auto
      have lb: "LoadBanner sBannerPath W = W2"
        using assms True ds by (simp add: LoadBanner_regenerate_preload W2_def W1_def cp_def)
      show ?thesis
        unfolding Let_def cp_def [symmetric] W1_def [symmetric] W2_def [symmetric]
        using res True ds io none by (simp add: lb [symmetric])
    next
      case False
      with cbi m1 have res: "map_of (g_BannerPathToImage W2) sBannerPath = None" by auto
      show ?thesis
        unfolding Let_def cp_def [symmetric] W1_def [symmetric] W2_def [symmetric]
        using res False ds io none s by simp
    qed
  qed
  ultimately show ?thesis by (cases "decodable W sBannerPath") auto
qed

lemma small_world_sel:
  "m_BannerCache (PREFSMAN small_world) = BNCACHE_LOW_RES_LOAD_ON_DEMAND"
  "m_bFastLoad (PREFSMAN small_world) = False"
  "files small_world = (\<lambda>sPath. sPath = ''a.png'')"
  "decodable small_world = (\<lambda>sPath. if sPath = ''a.png'' then Some a_png else None)"
  "cache_files small_world = (\<lambda>sPath. None)"
  "io_calls small_world = []"
  "g_BannerPathToImage small_world = []"
  "BannerData small_world = []"
  "GetBannerCachePath small_world sPath = ''Banners/'' @ sPath"
  "SongBannerTexture small_world = (\<lambda>ID. ID\<lparr>hints := 1\<rparr>)"
  by (simp_all add: small_world_def GetBannerCachePath_def)

lemma preload_world_sel:
  "m_BannerCache (PREFSMAN preload_world) = BNCACHE_LOW_RES_PRELOAD"
  "decodable preload_world = (\<lambda>sPath. if sPath = ''a.png'' then Some a_png else None)"
  "cache_files preload_world = (\<lambda>sPath. None)"
  "io_calls preload_world = []"
  "g_BannerPathToImage preload_world = []"
  "next_ptr preload_world = 0"
  "GetBannerCachePath preload_world sPath = ''Banners/'' @ sPath"
  by (simp_all add: preload_world_def small_world_def GetBannerCachePath_def)

theorem LoadBanner_one_regeneration_witness:
  "m_BannerCache (PREFSMAN small_world) \<noteq> BNCACHE_OFF \<and>
   map_of (g_BannerPathToImage small_world) ''b.png'' = None \<and>
   cache_files small_world (GetBannerCachePath small_world ''b.png'') = None \<and>
   LoadBanner ''b.png'' small_world =
     small_world\<lparr>io_calls := [Call_LoadSurface ''Banners/b.png'', Call_LoadFile ''b.png'',
                               Call_LoadSurface ''Banners/b.png'']\<rparr> \<and>
   count_list (io_calls (LoadBanner ''b.png'' small_world)) (Call_LoadFile ''b.png'') = 1"
proof -
  have h: "m_BannerCache (PREFSMAN small_world) \<noteq> BNCACHE_OFF" "''b.png'' \<noteq> []"
      "map_of (g_BannerPathToImage small_world) ''b.png'' = None"
      "cache_files small_world (GetBannerCachePath small_world ''b.png'') = None"
    by (simp_all add: small_world_sel)
  have u: "CacheBannerInternal ''b.png''
             (small_world\<lparr>io_calls := [Call_LoadSurface ''Banners/b.png'']\<rparr>) =
           small_world\<lparr>io_calls := [Call_LoadSurface ''Banners/b.png'', Call_LoadFile ''b.png'']\<rparr>"
    by (simp add: CacheBannerInternal_undecodable small_world_sel)
  from LoadBanner_one_regeneration [OF h] h(1,3,4)
  show ?thesis
    unfolding Let_def by (simp add: small_world_sel u)
qed

theorem LoadBanner_retry_counterexample:
  "m_BannerCache (PREFSMAN preload_world) = BNCACHE_LOW_RES_PRELOAD \<and>
   map_of (g_BannerPathToImage preload_world) ''a.png'' = None \<and>
   cache_files preload_world (GetBannerCachePath preload_world ''a.png'') = None \<and>
   io_calls preload_world = [] \<and>
   io_calls (LoadBanner ''a.png'' preload_world) =
     [Call_LoadSurface ''Banners/a.png'', Call_LoadFile ''a.png'',
      Call_SaveSurface ''Banners/a.png'', Call_WriteFile] \<and>
   count_list (io_calls (LoadBanner ''a.png'' preload_world))
     (Call_LoadSurface ''Banners/a.png'') \<noteq> 2"
proof -
  have "io_calls (LoadBanner ''a.png'' preload_world) =
     [Call_LoadSurface ''Banners/a.png'', Call_LoadFile ''a.png'',
      Call_SaveSurface ''Banners/a.png'', Call_WriteFile]"
    by (subst LoadBanner_io_calls) (simp_all add: preload_world_sel)
  then show ?thesis by (simp add: preload_world_sel)
qed







subsection \<open>Caching a banner\<close>

lemma count_LoadFile_CacheBannerInternal:
  "count_list (io_calls (CacheBannerInternal p W)) (Call_LoadFile p) =
     count_list (io_calls W) (Call_LoadFile p) + 1"
proof (cases "decodable W p")
  case None
  then show ?thesis by (simp add: CacheBannerInternal_undecodable)
next
  case (Some src)
  from CacheBannerInternal_decodable [OF this] show ?thesis
    unfolding Let_def by simp
qed

lemma count_LoadFile_LoadBanner:
  assumes "m_BannerCache (PREFSMAN W) \<noteq> BNCACHE_OFF"
  shows "count_list (io_calls (LoadBanner p W)) (Call_LoadFile p) =
     count_list (io_calls W) (Call_LoadFile p) +
       (if p \<noteq> [] \<and> map_of (g_BannerPathToImage W) p = None \<and>
           cache_files W (GetBannerCachePath W p) = None then 1 else 0)"
proof (cases "p \<noteq> [] \<and> map_of (g_BannerPathToImage W) p = None")
  case True
  with LoadBanner_io_calls [OF assms, of p] show ?thesis by auto
next
  case False
  then have "LoadBanner p W = W"
    by (auto simp: LoadBanner_def LoadBanner_loop_resident)
  with False show ?thesis by auto
qed

text \<open>
  C1, as amended. For a source file that exists, in a low-resolution caching mode,
  \<^verbatim>\<open>CacheBanner\<close> takes the cache for up to date exactly when the cache file exists
  and either the fast-load flag is set or the stored \<^verbatim>\<open>FullHash\<close> of the path equals
  the hash of the source file. It then does nothing in load-on-demand mode and calls
  \<^verbatim>\<open>LoadBanner\<close> in preload mode. In every other case, also when the cache file is
  absent and the fast-load flag is set, it runs \<^verbatim>\<open>CacheBannerInternal\<close>. Counted in
  regeneration attempts: none when the cache is up to date, except that in preload mode
  \<^verbatim>\<open>LoadBanner\<close> makes one when the image is not in memory and the cache file fails
  to load; exactly one otherwise.
\<close>

theorem CacheBanner_up_to_date_check:
  assumes "m_BannerCache (PREFSMAN W) \<noteq> BNCACHE_OFF" "files W sBannerPath"
  shows "let CachePath = GetBannerCachePath W sBannerPath;
             bCacheUpToDate =
               (files W CachePath \<and>
                (m_bFastLoad (PREFSMAN W) \<or>
                 GetValue (BannerData W) sBannerPath ini_FullHash =
                   Some (file_hash W sBannerPath)));
             bLoadFails =
               (m_BannerCache (PREFSMAN W) = BNCACHE_LOW_RES_PRELOAD \<and> sBannerPath \<noteq> [] \<and>
                map_of (g_BannerPathToImage W) sBannerPath = None \<and>
                cache_files W CachePath = None);
             W' = CacheBanner sBannerPath W
         in (bCacheUpToDate \<longrightarrow>
               W' = (if m_BannerCache (PREFSMAN W) = BNCACHE_LOW_RES_PRELOAD
                     then LoadBanner sBannerPath W else W)) \<and>
            (\<not> bCacheUpToDate \<longrightarrow> W' = CacheBannerInternal sBannerPath W) \<and>
            count_list (io_calls W') (Call_LoadFile sBannerPath) =
              count_list (io_calls W) (Call_LoadFile sBannerPath) +
                (if bCacheUpToDate \<and> \<not> bLoadFails then 0 else 1)"
proof -
  have mode: "m_BannerCache (PREFSMAN W) = BNCACHE_LOW_RES_PRELOAD \<or>
      m_BannerCache (PREFSMAN W) = BNCACHE_LOW_RES_LOAD_ON_DEMAND"
    using assms(1) by (cases "m_BannerCache (PREFSMAN W)") simp_all
  show ?thesis
    using assms mode
    by (auto simp: CacheBanner_def Let_def DoesFileExist_def GetHashForFile_def
        count_LoadFile_CacheBannerInternal count_LoadFile_LoadBanner)
qed

theorem CacheBanner_up_to_date_check_witness:
  "m_BannerCache (PREFSMAN fast_world) \<noteq> BNCACHE_OFF \<and> files fast_world ''a.png'' \<and>
   CacheBanner ''a.png'' fast_world = CacheBannerInternal ''a.png'' fast_world \<and>
   m_BannerCache (PREFSMAN (with_cache_file fast_world)) \<noteq> BNCACHE_OFF \<and>
   files (with_cache_file fast_world) ''a.png'' \<and>
   CacheBanner ''a.png'' (with_cache_file fast_world) = with_cache_file fast_world"
proof -
  have a: "m_BannerCache (PREFSMAN fast_world) \<noteq> BNCACHE_OFF" "files fast_world ''a.png''"
     "\<not> files fast_world (GetBannerCachePath fast_world ''a.png'')"
    by (simp_all add: fast_world_def small_world_def GetBannerCachePath_def)
  have b: "m_BannerCache (PREFSMAN (with_cache_file fast_world)) = BNCACHE_LOW_RES_LOAD_ON_DEMAND"
     "files (with_cache_file fast_world) ''a.png''"
     "files (with_cache_file fast_world) (GetBannerCachePath (with_cache_file fast_world) ''a.png'')"
     "m_bFastLoad (PREFSMAN (with_cache_file fast_world))"
    by (simp_all add: with_cache_file_def fast_world_def small_world_def GetBannerCachePath_def)
  from CacheBanner_up_to_date_check [of fast_world "''a.png''"]
    CacheBanner_up_to_date_check [of "with_cache_file fast_world" "''a.png''"] a b
  show ?thesis unfolding Let_def by simp
qed

theorem CacheBanner_fast_load_counterexample:
  "\<not> (io_calls (CacheBanner ''a.png'' fast_world) = io_calls fast_world \<longleftrightarrow>
        m_bFastLoad (PREFSMAN fast_world) \<or>
        (files fast_world (GetBannerCachePath fast_world ''a.png'') \<and>
         GetValue (BannerData fast_world) ''a.png'' ini_FullHash =
           Some (file_hash fast_world ''a.png'')))"
proof -
  have a: "m_BannerCache (PREFSMAN fast_world) = BNCACHE_LOW_RES_LOAD_ON_DEMAND"
     "files fast_world ''a.png''"
     "\<not> files fast_world (GetBannerCachePath fast_world ''a.png'')"
     "m_bFastLoad (PREFSMAN fast_world)"
     "decodable fast_world ''a.png'' = Some a_png"
    by (simp_all add: fast_world_def small_world_def GetBannerCachePath_def)
  have "CacheBanner ''a.png'' fast_world = CacheBannerInternal ''a.png'' fast_world"
    using a by (simp add: CacheBanner_def DoesFileExist_def)
  moreover from CacheBannerInternal_decodable [OF a(5)]
  have "io_calls (CacheBannerInternal ''a.png'' fast_world) \<noteq> io_calls fast_world"
    unfolding Let_def by simp
  ultimately show ?thesis using a(4) by simp
qed




subsection \<open>Handing a banner to the texture manager\<close>

text \<open>
  C8. When the path has no image in memory, \<^verbatim>\<open>LoadCachedBanner\<close> returns the
  identifier of the cache path (passed through \<^verbatim>\<open>Sprite::SongBannerTexture\<close> unless
  the path is empty) and the world as it was: no texture is created, none is registered.
  When an image is in memory but the width or the height stored in the index is zero or
  missing, the result is the same identifier and the same unchanged world.
\<close>

theorem LoadCachedBanner_inert:
  "(map_of (g_BannerPathToImage W) sBannerPath = None \<or>
    (case GetValue (BannerData W) sBannerPath ini_Width of None \<Rightarrow> 0 | Some v \<Rightarrow> v) = 0 \<or>
    (case GetValue (BannerData W) sBannerPath ini_Height of None \<Rightarrow> 0 | Some v \<Rightarrow> v) = 0 \<longrightarrow>
    LoadCachedBanner sBannerPath W =
      Inr (if sBannerPath = []
           then \<lparr>filename = GetBannerCachePath W sBannerPath, hints = 0, Policy = TEX_DEFAULT\<rparr>
           else SongBannerTexture W
                  \<lparr>filename = GetBannerCachePath W sBannerPath, hints = 0, Policy = TEX_DEFAULT\<rparr>,
           W))"
  by (auto simp: LoadCachedBanner_def Let_def split: option.splits)

theorem LoadCachedBanner_inert_witness:
  "map_of (g_BannerPathToImage small_world) ''a.png'' = None \<and>
   LoadCachedBanner ''a.png'' small_world =
     Inr (\<lparr>filename = ''Banners/a.png'', hints = 1, Policy = TEX_DEFAULT\<rparr>, small_world) \<and>
   map_of (g_BannerPathToImage loaded_world) ''a.png'' = Some 0 \<and>
   GetValue (BannerData loaded_world) ''a.png'' ini_Width = None \<and>
   LoadCachedBanner ''a.png'' loaded_world =
     Inr (\<lparr>filename = ''Banners/a.png'', hints = 1, Policy = TEX_DEFAULT\<rparr>, loaded_world)"
proof -
  have a: "map_of (g_BannerPathToImage small_world) ''a.png'' = None"
    by (simp add: small_world_sel)
  have b: "map_of (g_BannerPathToImage loaded_world) ''a.png'' = Some 0"
    "GetValue (BannerData loaded_world) ''a.png'' ini_Width = None"
    "GetBannerCachePath loaded_world ''a.png'' = ''Banners/a.png''"
    "SongBannerTexture loaded_world = (\<lambda>ID. ID\<lparr>hints := 1\<rparr>)"
    by (simp_all add: loaded_world_def small_world_def GetValue_def GetBannerCachePath_def)
  from LoadCachedBanner_inert [of small_world "''a.png''"]
    LoadCachedBanner_inert [of loaded_world "''a.png''"] a b
  show ?thesis by (simp add: small_world_sel)
qed

subsection \<open>The image in memory after a regeneration\<close>

text \<open>
  C9. When \<^verbatim>\<open>CacheBannerInternal\<close> runs to completion, the image that was in memory
  for the path is freed and its entry removed. The path has an entry afterwards exactly
  in preload mode, and the entry is then a newly allocated, live surface equal to the one
  saved in the cache file; in load-on-demand mode the path ends with no entry. The entries
  of the other paths and the other live surfaces are as before. The hypothesis on the old
  image says that it was allocated, so that a new allocation cannot return its address.
\<close>

theorem CacheBannerInternal_replaces_entry:
  assumes "decodable W sBannerPath = Some src"
    and "\<forall>old. map_of (g_BannerPathToImage W) sBannerPath = Some old \<longrightarrow> old < next_ptr W"
  shows "let W' = CacheBannerInternal sBannerPath W
         in (\<forall>old. map_of (g_BannerPathToImage W) sBannerPath = Some old \<longrightarrow>
               heap W' old = None) \<and>
            (map_of (g_BannerPathToImage W') sBannerPath \<noteq> None \<longleftrightarrow>
               m_BannerCache (PREFSMAN W) = BNCACHE_LOW_RES_PRELOAD) \<and>
            (m_BannerCache (PREFSMAN W) = BNCACHE_LOW_RES_PRELOAD \<longrightarrow>
               (\<exists>img s. map_of (g_BannerPathToImage W') sBannerPath = Some img \<and>
                  next_ptr W \<le> img \<and> heap W' img = Some s \<and>
                  cache_files W' (GetBannerCachePath W sBannerPath) = Some s)) \<and>
            (\<forall>q. q \<noteq> sBannerPath \<longrightarrow>
               map_of (g_BannerPathToImage W') q = map_of (g_BannerPathToImage W) q) \<and>
            (\<forall>a. a < next_ptr W \<and> map_of (g_BannerPathToImage W) sBannerPath \<noteq> Some a \<longrightarrow>
               heap W' a = heap W a)"
  using CacheBannerInternal_decodable [OF assms(1)] assms(2)
  unfolding Let_def by (auto split: if_splits)

theorem CacheBannerInternal_replaces_entry_witness:
  "decodable stale_world ''a.png'' = Some a_png \<and>
   map_of (g_BannerPathToImage stale_world) ''a.png'' = Some 0 \<and> 0 < next_ptr stale_world \<and>
   heap stale_world 0 = Some cached_32 \<and>
   heap (CacheBannerInternal ''a.png'' stale_world) 0 = None \<and>
   (\<exists>img s. map_of (g_BannerPathToImage (CacheBannerInternal ''a.png'' stale_world)) ''a.png''
               = Some img \<and> 1 \<le> img \<and>
             heap (CacheBannerInternal ''a.png'' stale_world) img = Some s \<and>
             cache_files (CacheBannerInternal ''a.png'' stale_world) ''Banners/a.png'' = Some s) \<and>
   decodable loaded_world ''a.png'' = Some a_png \<and>
   map_of (g_BannerPathToImage loaded_world) ''a.png'' = Some 0 \<and>
   heap (CacheBannerInternal ''a.png'' loaded_world) 0 = None \<and>
   map_of (g_BannerPathToImage (CacheBannerInternal ''a.png'' loaded_world)) ''a.png'' = None"
proof -
  have a: "decodable stale_world ''a.png'' = Some a_png"
    "map_of (g_BannerPathToImage stale_world) ''a.png'' = Some 0" "next_ptr stale_world = 1"
    "heap stale_world 0 = Some cached_32"
    "m_BannerCache (PREFSMAN stale_world) = BNCACHE_LOW_RES_PRELOAD"
    "GetBannerCachePath stale_world ''a.png'' = ''Banners/a.png''"
    by (simp_all add: stale_world_def loaded_world_def small_world_def GetBannerCachePath_def)
  have b: "decodable loaded_world ''a.png'' = Some a_png"
    "map_of (g_BannerPathToImage loaded_world) ''a.png'' = Some 0" "next_ptr loaded_world = 1"
    "m_BannerCache (PREFSMAN loaded_world) = BNCACHE_LOW_RES_LOAD_ON_DEMAND"
    by (simp_all add: loaded_world_def small_world_def)
  from CacheBannerInternal_replaces_entry [of stale_world "''a.png''" a_png]
    CacheBannerInternal_replaces_entry [of loaded_world "''a.png''" a_png] a b
  show ?thesis unfolding Let_def by simp
qed

subsection \<open>Demand and Undemand\<close>

lemma Demand_loop_frame:
  "PREFSMAN (Demand_loop ks W) = PREFSMAN W \<and>
   g_iDemandRefcount (Demand_loop ks W) = g_iDemandRefcount W \<and>
   cache_files (Demand_loop ks W) = cache_files W \<and>
   GetCacheFilePath (Demand_loop ks W) = GetCacheFilePath W \<and>
   BannerData (Demand_loop ks W) = BannerData W"
proof (induction ks arbitrary: W)
  case Nil
  show ?case by simp
next
  case (Cons k ks)
  show ?case
    by (cases "cache_files W (GetBannerCachePath W k)")
       (simp_all add: Cons.IH LoadSurface_absent LoadSurface_present)
qed

lemma Demand_loop_keeps:
  "map_of (g_BannerPathToImage W) p = Some img \<Longrightarrow>
     map_of (g_BannerPathToImage (Demand_loop ks W)) p = Some img"
proof (induction ks arbitrary: W)
  case Nil
  then show ?case by simp
next
  case (Cons k ks)
  show ?case
  proof (cases "map_of (g_BannerPathToImage W) k")
    case (Some a)
    with Cons show ?thesis by simp
  next
    case None
    with Cons.prems have "k \<noteq> p" by auto
    with Cons None show ?thesis
      by (cases "cache_files W (GetBannerCachePath W k)")
         (simp_all add: LoadSurface_absent LoadSurface_present update_conv')
  qed
qed

lemma Demand_loop_loads:
  "p \<in> set ks \<Longrightarrow> cache_files W (GetBannerCachePath W p) \<noteq> None \<Longrightarrow>
     map_of (g_BannerPathToImage (Demand_loop ks W)) p \<noteq> None"
proof (induction ks arbitrary: W)
  case Nil
  then show ?case by simp
next
  case (Cons k ks)
  show ?case
  proof (cases "map_of (g_BannerPathToImage W) p")
    case (Some a)
    show ?thesis
      using Demand_loop_keeps [OF Some, of "k # ks"] by (simp del: Demand_loop.simps)
  next
    case None
    show ?thesis
    proof (cases "k = p")
      case True
      from Cons.prems(2) obtain s where s: "cache_files W (GetBannerCachePath W p) = Some s"
        by auto
      have "map_of (g_BannerPathToImage
               (W\<lparr>io_calls := io_calls W @ [Call_LoadSurface (GetBannerCachePath W p)],
                  heap := (heap W)(next_ptr W \<mapsto> s), next_ptr := Suc (next_ptr W),
                  g_BannerPathToImage := AList.update p (next_ptr W) (g_BannerPathToImage W)\<rparr>)) p
            = Some (next_ptr W)"
        by (simp add: update_conv')
      from Demand_loop_keeps [OF this, of ks] show ?thesis
        using True None s by (simp add: LoadSurface_present)
    next
      case False
      with Cons.prems have in_ks: "p \<in> set ks" by simp
      show ?thesis
      proof (cases "map_of (g_BannerPathToImage W) k")
        case (Some a)
        with Cons.IH [OF in_ks Cons.prems(2)] show ?thesis by simp
      next
        case kn: None
        show ?thesis
        proof (cases "cache_files W (GetBannerCachePath W k)")
          case cn: None
          have "map_of (g_BannerPathToImage (Demand_loop ks
                  (W\<lparr>io_calls := io_calls W @ [Call_LoadSurface (GetBannerCachePath W k)]\<rparr>))) p
                \<noteq> None"
            using Cons.prems(2) by (intro Cons.IH [OF in_ks]) (simp add: GetBannerCachePath_def)
          with kn cn show ?thesis by (simp add: LoadSurface_absent)
        next
          case (Some s)
          have "map_of (g_BannerPathToImage (Demand_loop ks
                  (W\<lparr>io_calls := io_calls W @ [Call_LoadSurface (GetBannerCachePath W k)],
                     heap := (heap W)(next_ptr W \<mapsto> s), next_ptr := Suc (next_ptr W),
                     g_BannerPathToImage :=
                       AList.update k (next_ptr W) (g_BannerPathToImage W)\<rparr>))) p
                \<noteq> None"
            using Cons.prems(2) by (intro Cons.IH [OF in_ks]) (simp add: GetBannerCachePath_def)
          with kn Some show ?thesis by (simp add: LoadSurface_present)
        qed
      qed
    qed
  qed
qed

lemma heap_fold_delete:
  "heap (fold (\<lambda>it. delete_surface (snd it)) xs W) a =
     (if a \<in> snd ` set xs then None else heap W a)"
  by (induction xs arbitrary: W) (auto simp: delete_surface_def)

lemma fold_delete_frame:
  "(fold (\<lambda>it. delete_surface (snd it)) xs W)\<lparr>heap := H\<rparr> = W\<lparr>heap := H\<rparr>"
  by (induction xs arbitrary: W) (auto simp: delete_surface_def)

lemma UnloadAllBanners_result:
  "g_BannerPathToImage (UnloadAllBanners W) = [] \<and>
   g_iDemandRefcount (UnloadAllBanners W) = g_iDemandRefcount W \<and>
   (\<forall>a. heap (UnloadAllBanners W) a =
      (if a \<in> snd ` set (g_BannerPathToImage W) then None else heap W a))"
proof -
  have "g_iDemandRefcount (fold (\<lambda>it. delete_surface (snd it)) xs W) = g_iDemandRefcount W" for xs
    by (induction xs arbitrary: W) (auto simp: delete_surface_def)
  then show ?thesis by (simp add: UnloadAllBanners_def heap_fold_delete)
qed

lemma sint_succ:
  fixes c :: "32 word"
  assumes "sint c < 2 ^ 31 - 1"
  shows "sint (c + 1) = sint c + 1"
proof -
  have "- (2 ^ 31) \<le> sint c" using sint_ge [of c] by simp
  with assms show ?thesis
    by (simp add: sint_word_ariths signed_take_bit_int_eq_self)
qed

lemma Demand_nested:
  "1 \<le> sint (g_iDemandRefcount W) \<Longrightarrow> sint (g_iDemandRefcount W) < 2 ^ 31 - 1 \<Longrightarrow>
     Demand W = W\<lparr>g_iDemandRefcount := g_iDemandRefcount W + 1\<rparr>"
  by (simp add: Demand_def sint_succ)

lemma Demand_preloads:
  "sint (g_iDemandRefcount W + 1) \<le> 1 \<Longrightarrow>
   m_BannerCache (PREFSMAN W) = BNCACHE_LOW_RES_LOAD_ON_DEMAND \<Longrightarrow>
     Demand W = Demand_loop (map fst (BannerData W))
                  (W\<lparr>g_iDemandRefcount := g_iDemandRefcount W + 1\<rparr>)"
  by (simp add: Demand_def)

lemma Undemand_not_last:
  "g_iDemandRefcount W \<noteq> 1 \<Longrightarrow>
     Undemand W = W\<lparr>g_iDemandRefcount := g_iDemandRefcount W - 1\<rparr>"
  by (simp add: Undemand_def)

lemma Demand_refcount: "g_iDemandRefcount (Demand W) = g_iDemandRefcount W + 1"
  by (simp add: Demand_def Demand_loop_frame Let_def)

lemma Demand_mode: "PREFSMAN (Demand W) = PREFSMAN W"
  by (simp add: Demand_def Demand_loop_frame Let_def)

lemma sint_zero_iff:
  fixes c :: "32 word"
  shows "sint c = 0 \<longleftrightarrow> c = 0"
  by (simp add: signed_eq_0_iff)

text \<open>
  C4, as amended. \<^verbatim>\<open>Demand\<close> tests the count after its increment: when that is
  above 1 it only counts, and otherwise, in load-on-demand mode, it runs the bulk preload,
  whatever the count was before: also from a negative count, which one unmatched
  \<^verbatim>\<open>Undemand\<close> leaves behind. \<^verbatim>\<open>Undemand\<close> only counts unless its decrement
  reaches 0, that is from 1 to 0. So at a count from 1 to \<open>2 ^ 31 - 2\<close> a nested
  \<^verbatim>\<open>Demand\<close> loads nothing, and at a count from 0 to \<open>2 ^ 31 - 2\<close> a
  \<^verbatim>\<open>Demand\<close> that does more than count takes the count from 0 to 1. From a count from
  0 to \<open>2 ^ 31 - 3\<close>, \<^verbatim>\<open>Demand(); Demand(); Undemand();\<close> ends in the
  very state the first \<^verbatim>\<open>Demand\<close> left: every image it loaded is still in memory.
  From count 0 in load-on-demand mode the matching second \<^verbatim>\<open>Undemand\<close> empties the
  memory, frees every image and brings the count back to 0.
\<close>

theorem demand_refcount:
  "(1 \<le> sint (g_iDemandRefcount W) \<and> sint (g_iDemandRefcount W) < 2 ^ 31 - 1 \<longrightarrow>
      Demand W = W\<lparr>g_iDemandRefcount := g_iDemandRefcount W + 1\<rparr>) \<and>
   (g_iDemandRefcount W \<noteq> 1 \<longrightarrow>
      Undemand W = W\<lparr>g_iDemandRefcount := g_iDemandRefcount W - 1\<rparr>) \<and>
   (0 \<le> sint (g_iDemandRefcount W) \<and> sint (g_iDemandRefcount W) < 2 ^ 31 - 1 \<and>
    Demand W \<noteq> W\<lparr>g_iDemandRefcount := g_iDemandRefcount W + 1\<rparr> \<longrightarrow>
      g_iDemandRefcount W = 0 \<and> g_iDemandRefcount (Demand W) = 1) \<and>
   (Undemand W \<noteq> W\<lparr>g_iDemandRefcount := g_iDemandRefcount W - 1\<rparr> \<longrightarrow>
      g_iDemandRefcount W = 1 \<and> g_iDemandRefcount (Undemand W) = 0) \<and>
   (sint (g_iDemandRefcount W + 1) \<le> 1 \<and>
    m_BannerCache (PREFSMAN W) = BNCACHE_LOW_RES_LOAD_ON_DEMAND \<longrightarrow>
      Demand W = Demand_loop (map fst (BannerData W))
                   (W\<lparr>g_iDemandRefcount := g_iDemandRefcount W + 1\<rparr>) \<and>
      (\<forall>p img. map_of (g_BannerPathToImage W) p = Some img \<longrightarrow>
         map_of (g_BannerPathToImage (Demand W)) p = Some img) \<and>
      (\<forall>p \<in> fst ` set (BannerData W).
         cache_files W (GetBannerCachePath W p) \<noteq> None \<longrightarrow>
         map_of (g_BannerPathToImage (Demand W)) p \<noteq> None)) \<and>
   (0 \<le> sint (g_iDemandRefcount W) \<and> sint (g_iDemandRefcount W) < 2 ^ 31 - 2 \<longrightarrow>
      Undemand (Demand (Demand W)) = Demand W) \<and>
   (g_iDemandRefcount W = 0 \<and>
    m_BannerCache (PREFSMAN W) = BNCACHE_LOW_RES_LOAD_ON_DEMAND \<longrightarrow>
      g_BannerPathToImage (Undemand (Undemand (Demand (Demand W)))) = [] \<and>
      g_iDemandRefcount (Undemand (Undemand (Demand (Demand W)))) = 0 \<and>
      (\<forall>p img. map_of (g_BannerPathToImage (Demand W)) p = Some img \<longrightarrow>
         heap (Undemand (Undemand (Demand (Demand W)))) img = None))"
proof (intro conjI impI)
  assume "1 \<le> sint (g_iDemandRefcount W) \<and> sint (g_iDemandRefcount W) < 2 ^ 31 - 1"
  then show "Demand W = W\<lparr>g_iDemandRefcount := g_iDemandRefcount W + 1\<rparr>"
    by (intro Demand_nested) simp_all
next
  assume "g_iDemandRefcount W \<noteq> 1"
  then show "Undemand W = W\<lparr>g_iDemandRefcount := g_iDemandRefcount W - 1\<rparr>"
    by (rule Undemand_not_last)
next
  assume a: "0 \<le> sint (g_iDemandRefcount W) \<and> sint (g_iDemandRefcount W) < 2 ^ 31 - 1 \<and>
    Demand W \<noteq> W\<lparr>g_iDemandRefcount := g_iDemandRefcount W + 1\<rparr>"
  then have "\<not> 1 \<le> sint (g_iDemandRefcount W)" using Demand_nested [of W] by blast
  with a have "sint (g_iDemandRefcount W) = 0" by simp
  then have z: "g_iDemandRefcount W = 0" by (simp add: sint_zero_iff)
  then show "g_iDemandRefcount W = 0" "g_iDemandRefcount (Demand W) = 1"
    by (simp_all add: Demand_refcount)
next
  assume "Undemand W \<noteq> W\<lparr>g_iDemandRefcount := g_iDemandRefcount W - 1\<rparr>"
  then have "g_iDemandRefcount W = 1" using Undemand_not_last [of W] by blast
  then show "g_iDemandRefcount W = 1" "g_iDemandRefcount (Undemand W) = 0"
    by (simp_all add: Undemand_def Let_def UnloadAllBanners_result)
next
  assume a: "sint (g_iDemandRefcount W + 1) \<le> 1 \<and>
    m_BannerCache (PREFSMAN W) = BNCACHE_LOW_RES_LOAD_ON_DEMAND"
  then show d: "Demand W = Demand_loop (map fst (BannerData W))
                   (W\<lparr>g_iDemandRefcount := g_iDemandRefcount W + 1\<rparr>)"
    by (intro Demand_preloads) simp_all
  show "\<forall>p img. map_of (g_BannerPathToImage W) p = Some img \<longrightarrow>
         map_of (g_BannerPathToImage (Demand W)) p = Some img"
    unfolding d by (auto intro: Demand_loop_keeps)
  show "\<forall>p \<in> fst ` set (BannerData W).
         cache_files W (GetBannerCachePath W p) \<noteq> None \<longrightarrow>
         map_of (g_BannerPathToImage (Demand W)) p \<noteq> None"
  proof (intro ballI impI)
    fix p
    assume p: "p \<in> fst ` set (BannerData W)"
      and c: "cache_files W (GetBannerCachePath W p) \<noteq> None"
    have "map_of (g_BannerPathToImage
            (Demand_loop (map fst (BannerData W))
               (W\<lparr>g_iDemandRefcount := g_iDemandRefcount W + 1\<rparr>))) p \<noteq> None"
      using p c by (intro Demand_loop_loads) (simp_all add: GetBannerCachePath_def)
    then show "map_of (g_BannerPathToImage (Demand W)) p \<noteq> None"
      unfolding d .
  qed
next
  assume nn: "0 \<le> sint (g_iDemandRefcount W) \<and> sint (g_iDemandRefcount W) < 2 ^ 31 - 2"
  then have s1: "sint (g_iDemandRefcount W + 1) = sint (g_iDemandRefcount W) + 1"
    by (intro sint_succ) simp
  have "(Demand W)\<lparr>g_iDemandRefcount := g_iDemandRefcount (Demand W)\<rparr> = Demand W"
    by simp
  then have same: "(Demand W)\<lparr>g_iDemandRefcount := g_iDemandRefcount W + 1\<rparr> = Demand W"
    by (simp only: Demand_refcount)
  have dd: "Demand (Demand W) =
      (Demand W)\<lparr>g_iDemandRefcount := g_iDemandRefcount W + 1 + 1\<rparr>"
    using nn s1 Demand_nested [of "Demand W"] by (simp add: Demand_refcount)
  have nz: "g_iDemandRefcount W + 1 \<noteq> 0"
    using nn s1 by (auto simp: sint_zero_iff [symmetric])
  have "Undemand (Demand (Demand W)) =
      (Demand W)\<lparr>g_iDemandRefcount := g_iDemandRefcount W + 1\<rparr>"
    unfolding dd using nz by (subst Undemand_not_last) (simp_all add: add.commute)
  with same show "Undemand (Demand (Demand W)) = Demand W" by simp
next
  assume a: "g_iDemandRefcount W = 0 \<and>
    m_BannerCache (PREFSMAN W) = BNCACHE_LOW_RES_LOAD_ON_DEMAND"
  have "(Demand W)\<lparr>g_iDemandRefcount := g_iDemandRefcount (Demand W)\<rparr> = Demand W"
    by simp
  then have same: "(Demand W)\<lparr>g_iDemandRefcount := 1\<rparr> = Demand W"
    using a by (simp add: Demand_refcount)
  have "Demand (Demand W) = (Demand W)\<lparr>g_iDemandRefcount := 2\<rparr>"
    using a Demand_nested [of "Demand W"] by (simp add: Demand_refcount)
  then have "Undemand (Demand (Demand W)) = (Demand W)\<lparr>g_iDemandRefcount := 1\<rparr>"
    by (simp add: Undemand_not_last)
  with same have udd: "Undemand (Demand (Demand W)) = Demand W" by simp
  have last: "Undemand (Demand W) = UnloadAllBanners ((Demand W)\<lparr>g_iDemandRefcount := 0\<rparr>)"
    using a by (simp add: Undemand_def Demand_refcount Demand_mode)
  show "g_BannerPathToImage (Undemand (Undemand (Demand (Demand W)))) = []"
    unfolding udd last by (simp add: UnloadAllBanners_result)
  show "g_iDemandRefcount (Undemand (Undemand (Demand (Demand W)))) = 0"
    unfolding udd last by (simp add: UnloadAllBanners_result)
  show "\<forall>p img. map_of (g_BannerPathToImage (Demand W)) p = Some img \<longrightarrow>
         heap (Undemand (Undemand (Demand (Demand W)))) img = None"
    unfolding udd last
    by (auto simp: UnloadAllBanners_result dest!: map_of_SomeD
        intro!: image_eqI [where x = "(p, img)" for p img])
qed

lemma indexed_world_sel:
  "g_iDemandRefcount indexed_world = 0"
  "m_BannerCache (PREFSMAN indexed_world) = BNCACHE_LOW_RES_LOAD_ON_DEMAND"
  "g_BannerPathToImage indexed_world = []"
  "next_ptr indexed_world = 0"
  "map fst (BannerData indexed_world) = [''a.png'']"
  "cache_files indexed_world ''Banners/a.png'' = Some cached_32"
  "GetCacheFilePath indexed_world = (\<lambda>sDir sPath. sDir @ ''/'' @ sPath)"
  by (simp_all add: indexed_world_def with_cache_file_def small_world_def)

lemma Demand_indexed_world:
  "Demand indexed_world =
     indexed_world\<lparr>g_iDemandRefcount := 1,
       io_calls := io_calls indexed_world @ [Call_LoadSurface ''Banners/a.png''],
       heap := (heap indexed_world)(0 \<mapsto> cached_32), next_ptr := 1,
       g_BannerPathToImage := [(''a.png'', 0)]\<rparr>"
  by (simp add: Demand_def Let_def indexed_world_sel LoadSurface_present GetBannerCachePath_def)

theorem demand_refcount_witness:
  "g_iDemandRefcount indexed_world = 0 \<and>
   m_BannerCache (PREFSMAN indexed_world) = BNCACHE_LOW_RES_LOAD_ON_DEMAND \<and>
   ''a.png'' \<in> fst ` set (BannerData indexed_world) \<and>
   cache_files indexed_world (GetBannerCachePath indexed_world ''a.png'') \<noteq> None \<and>
   Undemand indexed_world = indexed_world\<lparr>g_iDemandRefcount := - 1\<rparr> \<and>
   g_BannerPathToImage (Demand indexed_world) = [(''a.png'', 0)] \<and>
   map_of (g_BannerPathToImage (Demand indexed_world)) ''a.png'' \<noteq> None \<and>
   g_iDemandRefcount (Demand indexed_world) = 1 \<and>
   Demand (Demand indexed_world) = (Demand indexed_world)\<lparr>g_iDemandRefcount := 2\<rparr> \<and>
   Undemand (Demand (Demand indexed_world)) = Demand indexed_world \<and>
   g_BannerPathToImage (Undemand (Undemand (Demand (Demand indexed_world)))) = [] \<and>
   heap (Undemand (Undemand (Demand (Demand indexed_world)))) 0 = None"
proof -
  have h: "g_iDemandRefcount indexed_world = 0"
    "m_BannerCache (PREFSMAN indexed_world) = BNCACHE_LOW_RES_LOAD_ON_DEMAND"
    "''a.png'' \<in> fst ` set (BannerData indexed_world)"
    "cache_files indexed_world (GetBannerCachePath indexed_world ''a.png'') \<noteq> None"
    by (simp_all add: indexed_world_sel GetBannerCachePath_def) (simp add: indexed_world_def)
  have d: "g_BannerPathToImage (Demand indexed_world) = [(''a.png'', 0)]"
    "g_iDemandRefcount (Demand indexed_world) = 1"
    by (simp_all add: Demand_indexed_world)
  note t0 = demand_refcount [of indexed_world]
  note t1 = demand_refcount [of "Demand indexed_world"]
  have hyp2: "g_iDemandRefcount indexed_world \<noteq> 1"
    and hyp5: "sint (g_iDemandRefcount indexed_world + 1) \<le> 1 \<and>
      m_BannerCache (PREFSMAN indexed_world) = BNCACHE_LOW_RES_LOAD_ON_DEMAND"
    and hyp6: "0 \<le> sint (g_iDemandRefcount indexed_world) \<and>
      sint (g_iDemandRefcount indexed_world) < 2 ^ 31 - 2"
    and hyp7: "g_iDemandRefcount indexed_world = 0 \<and>
      m_BannerCache (PREFSMAN indexed_world) = BNCACHE_LOW_RES_LOAD_ON_DEMAND"
    and hyp1: "1 \<le> sint (g_iDemandRefcount (Demand indexed_world)) \<and>
      sint (g_iDemandRefcount (Demand indexed_world)) < 2 ^ 31 - 1"
    by (simp_all add: h d)
  from t0 hyp2
  have "Undemand indexed_world =
      indexed_world\<lparr>g_iDemandRefcount := g_iDemandRefcount indexed_world - 1\<rparr>"
    by blast
  then have 0: "Undemand indexed_world = indexed_world\<lparr>g_iDemandRefcount := - 1\<rparr>"
    by (simp add: h)
  from t0 hyp5
  have "\<forall>p \<in> fst ` set (BannerData indexed_world).
      cache_files indexed_world (GetBannerCachePath indexed_world p) \<noteq> None \<longrightarrow>
      map_of (g_BannerPathToImage (Demand indexed_world)) p \<noteq> None"
    by blast
  with h(3,4)
  have 1: "map_of (g_BannerPathToImage (Demand indexed_world)) ''a.png'' \<noteq> None"
    by blast
  from t0 hyp6 have 2: "Undemand (Demand (Demand indexed_world)) = Demand indexed_world"
    by blast
  from t0 hyp7
  have 3: "g_BannerPathToImage (Undemand (Undemand (Demand (Demand indexed_world)))) = []"
    and 4: "\<forall>p img. map_of (g_BannerPathToImage (Demand indexed_world)) p = Some img \<longrightarrow>
      heap (Undemand (Undemand (Demand (Demand indexed_world)))) img = None"
    by blast+
  from t1 hyp1
  have "Demand (Demand indexed_world) =
      (Demand indexed_world)\<lparr>g_iDemandRefcount := g_iDemandRefcount (Demand indexed_world) + 1\<rparr>"
    by blast
  then have 5:
    "Demand (Demand indexed_world) = (Demand indexed_world)\<lparr>g_iDemandRefcount := 2\<rparr>"
    by (simp add: d)
  from 4 d have 6: "heap (Undemand (Undemand (Demand (Demand indexed_world)))) 0 = None"
    by simp
  from h d 0 1 2 3 5 6 show ?thesis by simp
qed

lemma Undemand_indexed_world:
  "Undemand indexed_world = indexed_world\<lparr>g_iDemandRefcount := - 1\<rparr>"
  by (simp add: Undemand_def indexed_world_sel)

lemma Demand_unbalanced:
  "Demand (indexed_world\<lparr>g_iDemandRefcount := - 1\<rparr>) =
     indexed_world\<lparr>g_iDemandRefcount := 0,
       io_calls := io_calls indexed_world @ [Call_LoadSurface ''Banners/a.png''],
       heap := (heap indexed_world)(0 \<mapsto> cached_32), next_ptr := 1,
       g_BannerPathToImage := [(''a.png'', 0)]\<rparr>"
  by (simp add: Demand_def Let_def indexed_world_sel LoadSurface_present GetBannerCachePath_def)

theorem demand_unbalanced_counterexample:
  "g_iDemandRefcount indexed_world = 0 \<and>
   m_BannerCache (PREFSMAN indexed_world) = BNCACHE_LOW_RES_LOAD_ON_DEMAND \<and>
   g_iDemandRefcount (Undemand indexed_world) = - 1 \<and>
   g_BannerPathToImage (Undemand indexed_world) = [] \<and>
   g_iDemandRefcount (Demand (Undemand indexed_world)) = 0 \<and>
   g_BannerPathToImage (Demand (Undemand indexed_world)) = [(''a.png'', 0)] \<and>
   g_iDemandRefcount (Demand (Demand (Undemand indexed_world))) = 1 \<and>
   g_BannerPathToImage (Demand (Demand (Undemand indexed_world))) = [(''a.png'', 0)] \<and>
   g_BannerPathToImage (Undemand (Demand (Demand (Undemand indexed_world)))) = []"
proof -
  have dd: "Demand (Demand (Undemand indexed_world)) =
      (Demand (Undemand indexed_world))\<lparr>g_iDemandRefcount := 1\<rparr>"
    unfolding Undemand_indexed_world Demand_unbalanced
    by (simp add: Demand_def Let_def indexed_world_sel)
  have u: "g_BannerPathToImage (Undemand (Demand (Demand (Undemand indexed_world)))) = []"
    unfolding dd
    by (simp add: Undemand_def Let_def UnloadAllBanners_result Undemand_indexed_world
        Demand_unbalanced indexed_world_sel)
  show ?thesis
    using u by (simp add: dd) (simp add: Undemand_indexed_world Demand_unbalanced indexed_world_sel)
qed

text \<open>
  With an image in memory and a sound index entry, on the other hand, the texture is created
  and registered.
\<close>

lemma LoadCachedBanner_registers:
  "LoadCachedBanner ''a.png'' (Demand indexed_world) =
     Inr (\<lparr>filename = ''Banners/a.png'', hints = 1, Policy = TEX_VOLATILE\<rparr>,
          (Demand indexed_world)
            \<lparr>DISPLAY := (DISPLAY indexed_world)\<lparr>created_textures :=
                          [(PixelFormat_RGB5A1, cached_32)]\<rparr>,
             TEXTUREMAN :=
               [RegisterTexture \<lparr>filename = ''Banners/a.png'', hints = 1, Policy = TEX_VOLATILE\<rparr>
                  \<lparr>tex_ID = \<lparr>filename = ''Banners/a.png'', hints = 1, Policy = TEX_DEFAULT\<rparr>,
                    m_uTexHandle = 1, img_ref = ''a.png'', m_iSourceWidth = 40,
                    m_iSourceHeight = 40, m_iTextureWidth = 32, m_iTextureHeight = 32,
                    m_iImageWidth = 32, m_iImageHeight = 32\<rparr>,
                UnloadTexture
                  \<lparr>tex_ID = \<lparr>filename = ''Banners/a.png'', hints = 1, Policy = TEX_DEFAULT\<rparr>,
                    m_uTexHandle = 1, img_ref = ''a.png'', m_iSourceWidth = 40,
                    m_iSourceHeight = 40, m_iTextureWidth = 32, m_iTextureHeight = 32,
                    m_iImageWidth = 32, m_iImageHeight = 32\<rparr>]\<rparr>)"
  unfolding Demand_indexed_world
  by (simp add: LoadCachedBanner_def Let_def GetValue_def
      IsTextureRegistered_def BannerTexture_Create_def deref_def CreateTexture_def
      power_of_two_32 indexed_world_def with_cache_file_def small_world_def cached_32_def
      GetBannerCachePath_def)


subsection \<open>An invariant of the images in memory\<close>

text \<open>
  \<open>images_ok\<close> holds of a world with nothing in memory, and every operation of the cache
  keeps it. It gives the hypothesis of the theorem on \<^verbatim>\<open>CacheBannerInternal\<close> above.
\<close>

lemma images_ok_insert_new:
  assumes "images_ok W"
  shows "images_ok (W\<lparr>io_calls := c, heap := (heap W)(next_ptr W \<mapsto> s),
            next_ptr := Suc (next_ptr W),
            g_BannerPathToImage := AList.update p (next_ptr W) (g_BannerPathToImage W)\<rparr>)"
  using assms unfolding images_ok_def
  by (auto simp: update_conv' less_Suc_eq split: if_splits)

lemma images_ok_io_calls: "images_ok (W\<lparr>io_calls := c\<rparr>) = images_ok W"
  by (simp add: images_ok_def)

lemma images_ok_refcount: "images_ok (W\<lparr>g_iDemandRefcount := c\<rparr>) = images_ok W"
  by (simp add: images_ok_def)

lemma images_ok_CacheBannerInternal:
  assumes "images_ok W"
  shows "images_ok (CacheBannerInternal p W)"
proof (cases "decodable W p")
  case None
  with assms show ?thesis by (simp add: CacheBannerInternal_undecodable images_ok_io_calls)
next
  case (Some src)
  define W' where "W' = CacheBannerInternal p W"
  note cbi = CacheBannerInternal_decodable [OF Some, unfolded Let_def, folded W'_def]
  from cbi have nxt: "next_ptr W < next_ptr W'" by blast
  from cbi have others: "\<And>q. q \<noteq> p \<Longrightarrow>
      map_of (g_BannerPathToImage W') q = map_of (g_BannerPathToImage W) q" by blast
  from cbi have old: "\<And>a. a < next_ptr W \<Longrightarrow> map_of (g_BannerPathToImage W) p \<noteq> Some a \<Longrightarrow>
      heap W' a = heap W a" by blast
  have wfp: "\<forall>old. map_of (g_BannerPathToImage W) p = Some old \<longrightarrow> old < next_ptr W"
    using assms by (auto simp: images_ok_def)
  from cbi wfp have new: "\<And>img. map_of (g_BannerPathToImage W') p = Some img \<Longrightarrow>
      next_ptr W \<le> img \<and> img < next_ptr W' \<and> heap W' img \<noteq> None"
    by (auto split: if_splits)
  have other_ptr: "a < next_ptr W \<and> heap W a \<noteq> None \<and> map_of (g_BannerPathToImage W) p \<noteq> Some a"
    if "q \<noteq> p" "map_of (g_BannerPathToImage W) q = Some a" for q a
    using that assms by (auto simp: images_ok_def)
  show ?thesis
    unfolding images_ok_def W'_def [symmetric]
  proof (intro conjI allI impI)
    fix q img assume m: "map_of (g_BannerPathToImage W') q = Some img"
    show "img < next_ptr W'"
    proof (cases "q = p")
      case True with m new show ?thesis by blast
    next
      case False
      with m others have "map_of (g_BannerPathToImage W) q = Some img" by simp
      with other_ptr [OF False] nxt show ?thesis by force
    qed
    show "heap W' img \<noteq> None"
    proof (cases "q = p")
      case True with m new show ?thesis by blast
    next
      case False
      with m others have "map_of (g_BannerPathToImage W) q = Some img" by simp
      with other_ptr [OF False] old show ?thesis by force
    qed
  next
    fix q r img
    assume m: "map_of (g_BannerPathToImage W') q = Some img \<and>
               map_of (g_BannerPathToImage W') r = Some img"
    show "q = r"
    proof (cases "q = p"; cases "r = p")
      assume "q = p" "r = p" then show ?thesis by simp
    next
      assume a: "q = p" "r \<noteq> p"
      with m others have "map_of (g_BannerPathToImage W) r = Some img" by simp
      with other_ptr [OF a(2)] have "img < next_ptr W" by blast
      moreover from a m new have "next_ptr W \<le> img" by blast
      ultimately show ?thesis by simp
    next
      assume a: "q \<noteq> p" "r = p"
      with m others have "map_of (g_BannerPathToImage W) q = Some img" by simp
      with other_ptr [OF a(1)] have "img < next_ptr W" by blast
      moreover from a m new have "next_ptr W \<le> img" by blast
      ultimately show ?thesis by simp
    next
      assume a: "q \<noteq> p" "r \<noteq> p"
      with m others have "map_of (g_BannerPathToImage W) q = Some img"
        "map_of (g_BannerPathToImage W) r = Some img" by simp_all
      with assms show ?thesis unfolding images_ok_def by blast
    qed
  qed
qed

lemma images_ok_LoadBanner:
  assumes "images_ok W"
  shows "images_ok (LoadBanner p W)"
proof (cases "m_BannerCache (PREFSMAN W) \<noteq> BNCACHE_OFF \<and> p \<noteq> [] \<and>
              map_of (g_BannerPathToImage W) p = None")
  case False
  then have "LoadBanner p W = W"
    by (auto simp: LoadBanner_def LoadBanner_loop_resident)
  with assms show ?thesis by simp
next
  case True
  show ?thesis
  proof (cases "cache_files W (GetBannerCachePath W p)")
    case (Some s)
    with True assms show ?thesis
      by (simp add: LoadBanner_present images_ok_insert_new)
  next
    case None
    show ?thesis
    proof (cases "decodable W p")
      case dn: None
      with True None assms show ?thesis
        by (simp add: LoadBanner_undecodable images_ok_io_calls)
    next
      case (Some src)
      have ok1: "images_ok (CacheBannerInternal p
          (W\<lparr>io_calls := io_calls W @ [Call_LoadSurface (GetBannerCachePath W p)]\<rparr>))"
        using assms by (intro images_ok_CacheBannerInternal) (simp add: images_ok_io_calls)
      show ?thesis
      proof (cases "m_BannerCache (PREFSMAN W) = BNCACHE_LOW_RES_PRELOAD")
        case pre: True
        with True None Some ok1 show ?thesis
          by (simp add: LoadBanner_regenerate_preload)
      next
        case False
        with True have od: "m_BannerCache (PREFSMAN W) = BNCACHE_LOW_RES_LOAD_ON_DEMAND"
          by (cases "m_BannerCache (PREFSMAN W)") simp_all
        from LoadBanner_regenerate_on_demand [OF od _ _ None Some] True ok1
        show ?thesis by (auto simp: images_ok_insert_new)
      qed
    qed
  qed
qed

lemma images_ok_CacheBanner: "images_ok W \<Longrightarrow> images_ok (CacheBanner p W)"
  by (simp add: CacheBanner_def Let_def images_ok_CacheBannerInternal images_ok_LoadBanner)

lemma images_ok_Demand_loop: "images_ok W \<Longrightarrow> images_ok (Demand_loop ks W)"
proof (induction ks arbitrary: W)
  case Nil
  then show ?case by simp
next
  case (Cons k ks)
  show ?case
  proof (cases "cache_files W (GetBannerCachePath W k)")
    case None
    with Cons show ?thesis by (simp add: LoadSurface_absent images_ok_io_calls)
  next
    case (Some s)
    with Cons show ?thesis by (simp add: LoadSurface_present images_ok_insert_new)
  qed
qed

lemma images_ok_Demand: "images_ok W \<Longrightarrow> images_ok (Demand W)"
  by (simp add: Demand_def Let_def images_ok_Demand_loop images_ok_refcount)

lemma images_ok_Undemand: "images_ok W \<Longrightarrow> images_ok (Undemand W)"
  by (simp add: Undemand_def Let_def images_ok_refcount)
     (simp add: images_ok_def UnloadAllBanners_result)

lemma images_ok_small_world: "images_ok small_world"
  by (simp add: images_ok_def small_world_def)

end
